theory Spec2Isabelle
  imports Complex_Main
begin

section \<open>The plotting wrapper of jmetal.util.visualization.plotting\<close>

text \<open>
  The module is one class, \<^verbatim>\<open>Plot\<close>, whose method \<^verbatim>\<open>plot\<close> reads the number of
  objectives of the first solution and calls one of \<^verbatim>\<open>two_dim\<close>, \<^verbatim>\<open>three_dim\<close> and
  \<^verbatim>\<open>pcoords\<close>. Everything these methods do is a call of the plotting, animation,
  dataframe or logging library. The model keeps the wrapper's own control flow (tests,
  loops, indexing, the one \<^verbatim>\<open>raise\<close>) and records every library call, in order and
  with its data arguments, in a log.

  Objective values are exact rationals here; rounding, signed zeros and infinite
  objective values of the floating-point numbers are outside the model. A library call
  is taken to return normally.
\<close>

subsection \<open>Solutions and the Plot instance\<close>

record solution =
  objectives :: "rat list"
  number_of_objectives :: int

record Plot =
  plot_title :: string
  axis_labels :: "string list option"
  reference_point :: "rat list option"
  reference_front :: "solution list option"
  dimension :: "int option"

text \<open>\<^verbatim>\<open>Plot.__init__\<close>; the parameters in the order of the source.\<close>

definition Plot_init ::
  "string \<Rightarrow> solution list option \<Rightarrow> rat list option \<Rightarrow> string list option \<Rightarrow> Plot" where
  "Plot_init title ref_front ref_point labels =
     \<lparr>plot_title = title, axis_labels = labels, reference_point = ref_point,
      reference_front = ref_front, dimension = None\<rparr>"

datatype error = IndexError | AttributeError | NameError | Exception string

text \<open>
  Python's truth value of an optional list or string, as in \<^verbatim>\<open>if filename:\<close>:
  \<^verbatim>\<open>None\<close> and the empty sequence are false.
\<close>

fun truthy :: "'a list option \<Rightarrow> bool" where
  "truthy None = False"
| "truthy (Some xs) = (xs \<noteq> [])"

text \<open>\<^verbatim>\<open>xs[i]\<close> for an index that is not negative.\<close>

definition index :: "'a list \<Rightarrow> nat \<Rightarrow> error + 'a" where
  "index xs i = (if i < length xs then Inr (xs ! i) else Inl IndexError)"

text \<open>\<^verbatim>\<open>[f(x) for x in xs]\<close> where \<^verbatim>\<open>f\<close> may raise: the first exception ends it.\<close>

fun comprehension :: "('a \<Rightarrow> error + 'b) \<Rightarrow> 'a list \<Rightarrow> error + 'b list" where
  "comprehension f [] = Inr []"
| "comprehension f (x # xs) =
     (case f x of
        Inl e \<Rightarrow> Inl e
      | Inr v \<Rightarrow> (case comprehension f xs of Inl e \<Rightarrow> Inl e | Inr vs \<Rightarrow> Inr (v # vs)))"

subsection \<open>The dataframe library, as far as the wrapper uses it\<close>

text \<open>
  A cell is a number, the missing value \<^verbatim>\<open>NaN\<close>, or an infinity. A dataframe has a
  column count (\<^verbatim>\<open>shape[1]\<close>) and rows of that many cells; a series has one cell for
  each column.
\<close>

datatype cell = Num rat | NaN | PosInf | NegInf

record dataframe =
  columns :: nat
  rows :: "cell list list"

text \<open>
  \<^verbatim>\<open>pd.DataFrame(data)\<close> for a list of lists: as many columns as the longest list
  has entries, shorter rows filled with \<^verbatim>\<open>NaN\<close>.
\<close>

definition DataFrame :: "rat list list \<Rightarrow> dataframe" where
  "DataFrame data =
     (let w = fold max (map length data) 0
      in \<lparr>columns = w,
          rows = map (\<lambda>r. map Num r @ replicate (w - length r) NaN) data\<rparr>)"

fun cell_sub :: "cell \<Rightarrow> cell \<Rightarrow> cell" where
  "cell_sub (Num a) (Num b) = Num (a - b)"
| "cell_sub NaN _ = NaN"
| "cell_sub _ NaN = NaN"
| "cell_sub PosInf PosInf = NaN"
| "cell_sub NegInf NegInf = NaN"
| "cell_sub PosInf _ = PosInf"
| "cell_sub NegInf _ = NegInf"
| "cell_sub (Num a) PosInf = NegInf"
| "cell_sub (Num a) NegInf = PosInf"

fun cell_div :: "cell \<Rightarrow> cell \<Rightarrow> cell" where
  "cell_div (Num a) (Num b) =
     (if b = 0 then (if a = 0 then NaN else if 0 < a then PosInf else NegInf)
      else Num (a / b))"
| "cell_div NaN _ = NaN"
| "cell_div _ NaN = NaN"
| "cell_div (Num a) _ = Num 0"
| "cell_div PosInf (Num b) = (if 0 \<le> b then PosInf else NegInf)"
| "cell_div NegInf (Num b) = (if 0 \<le> b then NegInf else PosInf)"
| "cell_div _ _ = NaN"

fun cell_le :: "cell \<Rightarrow> cell \<Rightarrow> bool" where
  "cell_le (Num a) (Num b) = (a \<le> b)"
| "cell_le NegInf _ = True"
| "cell_le _ PosInf = True"
| "cell_le _ _ = False"

text \<open>
  \<^verbatim>\<open>min()\<close> and \<^verbatim>\<open>max()\<close> of one column skip \<^verbatim>\<open>NaN\<close>; a column with no other
  entry gives \<^verbatim>\<open>NaN\<close>.
\<close>

definition column_min :: "cell list \<Rightarrow> cell" where
  "column_min cs =
     (case filter (\<lambda>c. c \<noteq> NaN) cs of
        [] \<Rightarrow> NaN
      | x # xs \<Rightarrow> fold (\<lambda>c m. if cell_le c m then c else m) xs x)"

definition column_max :: "cell list \<Rightarrow> cell" where
  "column_max cs =
     (case filter (\<lambda>c. c \<noteq> NaN) cs of
        [] \<Rightarrow> NaN
      | x # xs \<Rightarrow> fold (\<lambda>c m. if cell_le m c then c else m) xs x)"

definition column :: "dataframe \<Rightarrow> nat \<Rightarrow> cell list" where
  "column df j = map (\<lambda>r. r ! j) (rows df)"

definition df_min :: "dataframe \<Rightarrow> cell list" where
  "df_min df = map (\<lambda>j. column_min (column df j)) [0..<columns df]"

definition df_max :: "dataframe \<Rightarrow> cell list" where
  "df_max df = map (\<lambda>j. column_max (column df j)) [0..<columns df]"

text \<open>
  Arithmetic of a dataframe with a series works column by column; of two series,
  entry by entry.
\<close>

definition df_sub_series :: "dataframe \<Rightarrow> cell list \<Rightarrow> dataframe" where
  "df_sub_series df s = df\<lparr>rows := map (\<lambda>r. map2 cell_sub r s) (rows df)\<rparr>"

definition df_div_series :: "dataframe \<Rightarrow> cell list \<Rightarrow> dataframe" where
  "df_div_series df s = df\<lparr>rows := map (\<lambda>r. map2 cell_div r s) (rows df)\<rparr>"

definition series_sub :: "cell list \<Rightarrow> cell list \<Rightarrow> cell list" where
  "series_sub s t = map2 cell_sub s t"

subsection \<open>Library calls and the state of a run\<close>

text \<open>
  One constructor for each library call the wrapper makes, with the arguments that come
  from the wrapper's data. Constant styling arguments (colours, markers, transparency)
  are left out.
\<close>

datatype libcall =
    Figure
  | Suptitle string nat
  | AddSubplot nat nat nat bool
  | ScatterPlot dataframe nat nat
  | SetTitle string
  | LinePlot dataframe nat nat
  | PlotMarker rat rat
  | XLabel string
  | YLabel string
  | Scatter3D "rat list" "rat list" "rat list"
  | Relim
  | AutoscaleView
  | ViewInit rat rat
  | LocatorParams nat
  | ParallelCoordinates dataframe nat
  | LegendRemove
  | SetXTickLabels "string list"
  | FuncAnimation nat
  | LogInfo string
  | AnimSave string nat
  | Savefig string string nat
  | Show
  | Close

datatype branch = TwoDim | ThreeDim | PCoords

text \<open>
  The state of a run: the Plot instance, the log of library calls made so far, and the
  rendering methods entered so far (a history kept by the model only).
\<close>

record world =
  inst :: Plot
  calls :: "libcall list"
  entered :: "branch list"

definition start :: "Plot \<Rightarrow> world" where
  "start self = \<lparr>inst = self, calls = [], entered = []\<rparr>"

text \<open>
  A statement runs from a state to a state and either ends normally (\<open>None\<close>) or
  raises. A raised exception ends the enclosing block and loop: nothing in this module
  catches one.
\<close>

type_synonym stmt = "world \<Rightarrow> error option \<times> world"

definition call :: "libcall \<Rightarrow> stmt" where
  "call c w = (None, w\<lparr>calls := calls w @ [c]\<rparr>)"

definition enter :: "branch \<Rightarrow> stmt" where
  "enter b w = (None, w\<lparr>entered := entered w @ [b]\<rparr>)"

definition raise :: "error \<Rightarrow> stmt" where
  "raise e w = (Some e, w)"

definition skip :: stmt where
  "skip w = (None, w)"

fun block :: "stmt list \<Rightarrow> stmt" where
  "block [] w = (None, w)"
| "block (c # cs) w =
     (case c w of (None, w') \<Rightarrow> block cs w' | (Some e, w') \<Rightarrow> (Some e, w'))"

text \<open>Evaluate an expression that may raise, then go on with its value.\<close>

definition eval :: "error + 'a \<Rightarrow> ('a \<Rightarrow> stmt) \<Rightarrow> stmt" where
  "eval x k w = (case x of Inl e \<Rightarrow> (Some e, w) | Inr v \<Rightarrow> k v w)"

text \<open>Read \<^verbatim>\<open>self\<close>.\<close>

definition with_self :: "(Plot \<Rightarrow> stmt) \<Rightarrow> stmt" where
  "with_self k w = k (inst w) w"

text \<open>
  \<^verbatim>\<open>if x: ... else: ...\<close> for an optional list or string \<^verbatim>\<open>x\<close>; the first branch
  may use the value, which is then a non-empty list.
\<close>

definition if_truthy :: "'a list option \<Rightarrow> ('a list \<Rightarrow> stmt) \<Rightarrow> stmt \<Rightarrow> stmt" where
  "if_truthy x k e = (case x of None \<Rightarrow> e | Some xs \<Rightarrow> if xs \<noteq> [] then k xs else e)"

text \<open>\<^verbatim>\<open>for i, _ in enumerate(fronts)\<close>.\<close>

definition for_enumerate :: "'a list \<Rightarrow> (nat \<Rightarrow> stmt) \<Rightarrow> stmt" where
  "for_enumerate xs body = block (map body [0..<length xs])"

subsection \<open>get_points\<close>

definition get_points :: "solution list option \<Rightarrow> error + dataframe \<times> nat" where
  "get_points solutions =
     (case solutions of
        None \<Rightarrow> Inl (Exception ''Front is none!'')
      | Some sols \<Rightarrow>
          (let points = DataFrame (map objectives sols)
           in Inr (points, columns points)))"

subsection \<open>The three rendering methods\<close>

text \<open>
  \<^verbatim>\<open>int(np.ceil(np.sqrt(len(fronts))))\<close>, over the reals. (The floating-point square
  root agrees with it for every length below \<open>2^52\<close>.)
\<close>

definition grid_side :: "nat \<Rightarrow> nat" where
  "grid_side k = nat \<lceil>sqrt (real k)\<rceil>"

text \<open>One pass of the loop of \<^verbatim>\<open>two_dim\<close>, for the front at position \<open>i\<close>.\<close>

definition two_dim_body ::
  "Plot \<Rightarrow> solution list list \<Rightarrow> string list option \<Rightarrow> dataframe option \<Rightarrow> nat \<Rightarrow> nat \<Rightarrow> stmt" where
  "two_dim_body self fronts labels reference n i =
     eval (index fronts i) (\<lambda>front.
     eval (get_points (Some front)) (\<lambda>(points, _).
     block [
       call (AddSubplot n n (i + 1) False),
       call (ScatterPlot points 0 1),
       if_truthy labels (\<lambda>ls. eval (index ls i) (\<lambda>l. call (SetTitle l))) skip,
       if_truthy (reference_front self)
         (\<lambda>_. case reference of
                None \<Rightarrow> raise AttributeError
              | Some r \<Rightarrow> call (LinePlot r 0 1))
         skip,
       if_truthy (reference_point self)
         (\<lambda>p. eval (index p 0) (\<lambda>x. eval (index p 1) (\<lambda>y. call (PlotMarker x y))))
         skip,
       if_truthy (axis_labels self)
         (\<lambda>ls. block [
            eval (index ls 0) (\<lambda>l. call (XLabel l)),
            eval (index ls 1) (\<lambda>l. call (YLabel l))])
         skip]))"

definition two_dim ::
  "solution list list \<Rightarrow> string list option \<Rightarrow> string option \<Rightarrow> string \<Rightarrow> stmt" where
  "two_dim fronts labels filename format = with_self (\<lambda>self.
     let n = grid_side (length fronts) in
     block [
       enter TwoDim,
       call Figure,
       call (Suptitle (plot_title self) 16),
       eval (if truthy (reference_front self)
             then map_sum id (\<lambda>p. Some (fst p)) (get_points (reference_front self))
             else Inr None) (\<lambda>reference.
       block [
         for_enumerate fronts (two_dim_body self fronts labels reference n),
         if_truthy filename (\<lambda>f. call (Savefig f format 200)) (call Show),
         call Close])])"

text \<open>
  One pass of the loop of \<^verbatim>\<open>three_dim\<close>. The test of the reference point guards
  \<^verbatim>\<open>pass\<close> under a \<^verbatim>\<open># todo\<close> comment.
\<close>

definition three_dim_body ::
  "Plot \<Rightarrow> solution list list \<Rightarrow> string list option \<Rightarrow> nat \<Rightarrow> nat \<Rightarrow> stmt" where
  "three_dim_body self fronts labels n i =
     block [
       call (AddSubplot n n (i + 1) True),
       eval (index fronts i) (\<lambda>front.
       eval (comprehension (\<lambda>s. index (objectives s) 0) front) (\<lambda>xs.
       eval (comprehension (\<lambda>s. index (objectives s) 1) front) (\<lambda>ys.
       eval (comprehension (\<lambda>s. index (objectives s) 2) front) (\<lambda>zs.
       call (Scatter3D xs ys zs))))),
       if_truthy labels (\<lambda>ls. eval (index ls i) (\<lambda>l. call (SetTitle l))) skip,
       if_truthy (reference_front self)
         (\<lambda>rf.
            eval (comprehension (\<lambda>s. index (objectives s) 0) rf) (\<lambda>xs.
            eval (comprehension (\<lambda>s. index (objectives s) 1) rf) (\<lambda>ys.
            eval (comprehension (\<lambda>s. index (objectives s) 2) rf) (\<lambda>zs.
            call (Scatter3D xs ys zs)))))
         skip,
       if_truthy (reference_point self) (\<lambda>_. skip) skip,
       call Relim,
       call AutoscaleView,
       call (ViewInit 30 15),
       call (LocatorParams 4)]"

text \<open>
  In the branch for \<^verbatim>\<open>'gif'\<close> the function \<^verbatim>\<open>animate\<close> reads \<^verbatim>\<open>ax\<close>, the subplot
  of the last pass of the loop; with no front there is none, and saving the animation,
  which calls \<^verbatim>\<open>animate\<close>, raises.
\<close>

definition three_dim ::
  "solution list list \<Rightarrow> string list option \<Rightarrow> string option \<Rightarrow> string \<Rightarrow> stmt" where
  "three_dim fronts labels filename format = with_self (\<lambda>self.
     let n = grid_side (length fronts) in
     block [
       enter ThreeDim,
       call Figure,
       call (Suptitle (plot_title self) 16),
       for_enumerate fronts (three_dim_body self fronts labels n),
       if_truthy filename
         (\<lambda>f. if format = ''gif''
              then block [
                     call (FuncAnimation 20),
                     call (LogInfo ''Generating GIF (this may take some time...)''),
                     if fronts = [] then raise NameError
                     else call (AnimSave (f @ ''.gif'') 24),
                     call (LogInfo ''Done'')]
              else call (Savefig f format 1000))
         (call Show),
       call Close])"

text \<open>One pass of the loop of \<^verbatim>\<open>pcoords\<close>.\<close>

definition pcoords_body :: "Plot \<Rightarrow> solution list list \<Rightarrow> bool \<Rightarrow> nat \<Rightarrow> nat \<Rightarrow> stmt" where
  "pcoords_body self fronts normalise n i =
     eval (index fronts i) (\<lambda>front.
     eval (get_points (Some front)) (\<lambda>(points, _).
     let points =
       (if normalise
        then df_div_series (df_sub_series points (df_min points))
               (series_sub (df_max points) (df_min points))
        else points)
     in block [
       call (AddSubplot n n (i + 1) False),
       call (ParallelCoordinates points 0),
       call LegendRemove,
       if_truthy (axis_labels self) (\<lambda>ls. call (SetXTickLabels ls)) skip]))"

definition pcoords :: "solution list list \<Rightarrow> bool \<Rightarrow> string option \<Rightarrow> string \<Rightarrow> stmt" where
  "pcoords fronts normalise filename format = with_self (\<lambda>self.
     let n = grid_side (length fronts) in
     block [
       enter PCoords,
       call Figure,
       call (Suptitle (plot_title self) 16),
       for_enumerate fronts (pcoords_body self fronts normalise n),
       if_truthy filename (\<lambda>f. call (Savefig f format 1000)) (call Show),
       call Close])"

subsection \<open>plot\<close>

text \<open>
  The argument \<^verbatim>\<open>front\<close> is a list of solutions or a list of such lists;
  \<^verbatim>\<open>isinstance(front[0], list)\<close> tells them apart, after reading \<^verbatim>\<open>front[0]\<close>.
\<close>

datatype front_arg = Flat "solution list" | Nested "solution list list"

fun wrap :: "front_arg \<Rightarrow> error + solution list list" where
  "wrap (Flat sols) = (case index sols 0 of Inl e \<Rightarrow> Inl e | Inr _ \<Rightarrow> Inr [sols])"
| "wrap (Nested fronts) = (case index fronts 0 of Inl e \<Rightarrow> Inl e | Inr _ \<Rightarrow> Inr fronts)"

definition plot ::
  "front_arg \<Rightarrow> string list option \<Rightarrow> bool \<Rightarrow> string option \<Rightarrow> string \<Rightarrow> stmt" where
  "plot front label normalise filename format =
     eval (wrap front) (\<lambda>fronts.
     eval (index fronts 0) (\<lambda>front0.
     eval (index front0 0) (\<lambda>first.
     let d = number_of_objectives first in
     if d = 2 then two_dim fronts label filename format
     else if d = 3 then three_dim fronts label filename format
     else pcoords fronts normalise filename format)))"

subsection \<open>Observing a run\<close>

text \<open>
  A statement is run from the fresh state of an instance. Its trace is the log of library
  calls it leaves, its outcome the exception it raised if any, its branches the rendering
  methods it entered.
\<close>

definition trace :: "stmt \<Rightarrow> Plot \<Rightarrow> libcall list" where
  "trace c self = calls (snd (c (start self)))"

definition outcome :: "stmt \<Rightarrow> Plot \<Rightarrow> error option" where
  "outcome c self = fst (c (start self))"

definition branches :: "stmt \<Rightarrow> Plot \<Rightarrow> branch list" where
  "branches c self = entered (snd (c (start self)))"

text \<open>The first solution of the first front, and the list of fronts that is rendered.\<close>

fun first_solution :: "front_arg \<Rightarrow> solution option" where
  "first_solution (Flat (s # _)) = Some s"
| "first_solution (Nested ((s # _) # _)) = Some s"
| "first_solution _ = None"

fun as_fronts :: "front_arg \<Rightarrow> solution list list" where
  "as_fronts (Flat sols) = [sols]"
| "as_fronts (Nested fronts) = fronts"

text \<open>Kinds of library calls.\<close>

fun is_subplot :: "libcall \<Rightarrow> bool" where
  "is_subplot (AddSubplot _ _ _ _) = True"
| "is_subplot _ = False"

fun is_marker :: "libcall \<Rightarrow> bool" where
  "is_marker (PlotMarker _ _) = True"
| "is_marker _ = False"

fun is_line :: "libcall \<Rightarrow> bool" where
  "is_line (LinePlot _ _ _) = True"
| "is_line _ = False"

fun is_scatter :: "libcall \<Rightarrow> bool" where
  "is_scatter (ScatterPlot _ _ _) = True"
| "is_scatter _ = False"

fun is_scatter3d :: "libcall \<Rightarrow> bool" where
  "is_scatter3d (Scatter3D _ _ _) = True"
| "is_scatter3d _ = False"

fun is_parallel :: "libcall \<Rightarrow> bool" where
  "is_parallel (ParallelCoordinates _ _) = True"
| "is_parallel _ = False"

text \<open>The calls that put the figure out: a saved animation, a saved image, a window.\<close>

fun is_output :: "libcall \<Rightarrow> bool" where
  "is_output (AnimSave _ _) = True"
| "is_output (Savefig _ _ _) = True"
| "is_output Show = True"
| "is_output _ = False"

text \<open>The position argument of a subplot call.\<close>

fun position :: "libcall \<Rightarrow> nat" where
  "position (AddSubplot _ _ p _) = p"
| "position _ = 0"

text \<open>A subplot call for an \<open>n\<close> by \<open>n\<close> grid at a position from 1 to \<open>n * n\<close>.\<close>

fun in_grid :: "nat \<Rightarrow> libcall \<Rightarrow> bool" where
  "in_grid n (AddSubplot r c p _) = (r = n \<and> c = n \<and> 1 \<le> p \<and> p \<le> n * n)"
| "in_grid n _ = True"

text \<open>\<^verbatim>\<open>(points - points.min()) / (points.max() - points.min())\<close>.\<close>

definition min_max :: "dataframe \<Rightarrow> dataframe" where
  "min_max points =
     df_div_series (df_sub_series points (df_min points))
       (series_sub (df_max points) (df_min points))"

text \<open>\<^verbatim>\<open>[s.objectives[j] for s in sols]\<close> when every vector is long enough.\<close>

definition axis_values :: "nat \<Rightarrow> solution list \<Rightarrow> rat list" where
  "axis_values j sols = map (\<lambda>s. objectives s ! j) sols"

subsection \<open>The calls of a pass that ends normally\<close>

definition when_truthy :: "'a list option \<Rightarrow> ('a list \<Rightarrow> 'b list) \<Rightarrow> 'b list" where
  "when_truthy x f = (case x of None \<Rightarrow> [] | Some xs \<Rightarrow> if xs \<noteq> [] then f xs else [])"

definition reference_value :: "Plot \<Rightarrow> dataframe option" where
  "reference_value self =
     (case reference_front self of
        None \<Rightarrow> None
      | Some rf \<Rightarrow> if rf \<noteq> [] then Some (DataFrame (map objectives rf)) else None)"

definition two_dim_pass ::
  "Plot \<Rightarrow> solution list list \<Rightarrow> string list option \<Rightarrow> nat \<Rightarrow> nat \<Rightarrow> libcall list" where
  "two_dim_pass self fronts labels n i =
     [AddSubplot n n (i + 1) False,
      ScatterPlot (DataFrame (map objectives (fronts ! i))) 0 1]
     @ when_truthy labels (\<lambda>ls. [SetTitle (ls ! i)])
     @ when_truthy (reference_front self) (\<lambda>rf. [LinePlot (DataFrame (map objectives rf)) 0 1])
     @ when_truthy (reference_point self) (\<lambda>p. [PlotMarker (p ! 0) (p ! 1)])
     @ when_truthy (axis_labels self) (\<lambda>ls. [XLabel (ls ! 0), YLabel (ls ! 1)])"

definition three_dim_pass ::
  "Plot \<Rightarrow> solution list list \<Rightarrow> string list option \<Rightarrow> nat \<Rightarrow> nat \<Rightarrow> libcall list" where
  "three_dim_pass self fronts labels n i =
     [AddSubplot n n (i + 1) True,
      Scatter3D (axis_values 0 (fronts ! i)) (axis_values 1 (fronts ! i))
        (axis_values 2 (fronts ! i))]
     @ when_truthy labels (\<lambda>ls. [SetTitle (ls ! i)])
     @ when_truthy (reference_front self)
         (\<lambda>rf. [Scatter3D (axis_values 0 rf) (axis_values 1 rf) (axis_values 2 rf)])
     @ [Relim, AutoscaleView, ViewInit 30 15, LocatorParams 4]"

definition pcoords_pass ::
  "Plot \<Rightarrow> solution list list \<Rightarrow> bool \<Rightarrow> nat \<Rightarrow> nat \<Rightarrow> libcall list" where
  "pcoords_pass self fronts normalise n i =
     [AddSubplot n n (i + 1) False,
      ParallelCoordinates
        (if normalise then min_max (DataFrame (map objectives (fronts ! i)))
         else DataFrame (map objectives (fronts ! i))) 0,
      LegendRemove]
     @ when_truthy (axis_labels self) (\<lambda>ls. [SetXTickLabels ls])"

text \<open>The output calls at the end of a method that ends normally.\<close>

definition saved_or_shown :: "string option \<Rightarrow> string \<Rightarrow> nat \<Rightarrow> libcall list" where
  "saved_or_shown filename format dpi =
     (case filename of
        None \<Rightarrow> [Show]
      | Some f \<Rightarrow> if f \<noteq> [] then [Savefig f format dpi] else [Show])"

definition three_dim_output :: "string option \<Rightarrow> string \<Rightarrow> libcall list" where
  "three_dim_output filename format =
     (case filename of
        None \<Rightarrow> [Show]
      | Some f \<Rightarrow>
          if f \<noteq> [] then
            (if format = ''gif''
             then [FuncAnimation 20, LogInfo ''Generating GIF (this may take some time...)'',
                   AnimSave (f @ ''.gif'') 24, LogInfo ''Done'']
             else [Savefig f format 1000])
          else [Show])"


text \<open>
  \<open>appends Q c\<close>: whatever its outcome, \<open>c\<close> changes the state only by adding calls to
  the log, each of them with the property \<open>Q\<close>. \<open>ok_log c A\<close>: when \<open>c\<close> ends normally it
  has added exactly the calls \<open>A\<close> and changed nothing else. \<open>succeeds c\<close>: \<open>c\<close> never
  raises.
\<close>

definition appends :: "(libcall \<Rightarrow> bool) \<Rightarrow> stmt \<Rightarrow> bool" where
  "appends Q c \<longleftrightarrow> (\<forall>w. \<exists>L. snd (c w) = w\<lparr>calls := calls w @ L\<rparr> \<and> list_all Q L)"

definition ok_log :: "stmt \<Rightarrow> libcall list \<Rightarrow> bool" where
  "ok_log c A \<longleftrightarrow> (\<forall>w. fst (c w) = None \<longrightarrow> snd (c w) = w\<lparr>calls := calls w @ A\<rparr>)"

definition succeeds :: "stmt \<Rightarrow> bool" where
  "succeeds c \<longleftrightarrow> (\<forall>w. fst (c w) = None)"

subsection \<open>Sample inputs\<close>

definition sol :: "rat list \<Rightarrow> solution" where
  "sol v = \<lparr>objectives = v, number_of_objectives = int (length v)\<rparr>"

definition plain :: Plot where
  "plain = Plot_init ''jMetalPy'' None None None"

definition decorated :: Plot where
  "decorated = Plot_init ''jMetalPy'' (Some [sol [0, 1, 2], sol [2, 1, 0]]) (Some [1, 1, 1])
     (Some [''f1'', ''f2'', ''f3''])"

section \<open>Properties\<close>

subsection \<open>The grid side\<close>

lemma grid_side_covers: "k \<le> grid_side k * grid_side k"
proof -
  have "sqrt (real k) \<le> real (grid_side k)"
    unfolding grid_side_def by linarith
  then have "sqrt (real k) * sqrt (real k) \<le> real (grid_side k) * real (grid_side k)"
    by (intro mult_mono) auto
  then have "real k \<le> real (grid_side k * grid_side k)" by simp
  then show ?thesis by linarith
qed

lemma grid_side_least: "k \<le> m * m \<Longrightarrow> grid_side k \<le> m"
proof -
  assume "k \<le> m * m"
  then have "real k \<le> real m * real m" by (metis of_nat_le_iff of_nat_mult)
  then have "sqrt (real k) \<le> sqrt (real m * real m)" by (rule real_sqrt_le_mono)
  then have "sqrt (real k) \<le> real m" by simp
  then have "\<lceil>sqrt (real k)\<rceil> \<le> int m" by (simp add: ceiling_le_iff)
  then show ?thesis unfolding grid_side_def by linarith
qed

lemma grid_side_one: "grid_side (Suc 0) = Suc 0"
  by (simp add: grid_side_def)

lemma grid_side_two: "grid_side (Suc (Suc 0)) = 2"
proof (rule antisym)
  show "grid_side (Suc (Suc 0)) \<le> 2" by (rule grid_side_least) simp
  have "Suc (Suc 0) \<le> grid_side (Suc (Suc 0)) * grid_side (Suc (Suc 0))"
    by (rule grid_side_covers)
  moreover have "grid_side (Suc (Suc 0)) * grid_side (Suc (Suc 0)) \<le> 1 * 1"
    if "grid_side (Suc (Suc 0)) \<le> 1"
    using that by (intro mult_le_mono)
  ultimately have "\<not> grid_side (Suc (Suc 0)) \<le> 1" by auto
  then show "2 \<le> grid_side (Suc (Suc 0))" by simp
qed

text \<open>The grid side is the least \<open>n\<close> with \<open>k \<le> n * n\<close>; this equation computes it.\<close>

lemma grid_side_below: "m * m < k \<longleftrightarrow> m < grid_side k"
proof
  assume "m * m < k"
  show "m < grid_side k"
  proof (rule ccontr)
    assume "\<not> m < grid_side k"
    then have "grid_side k * grid_side k \<le> m * m" by (simp add: mult_le_mono)
    with grid_side_covers [of k] have "k \<le> m * m" by (rule order_trans)
    with \<open>m * m < k\<close> show False by simp
  qed
next
  assume "m < grid_side k"
  show "m * m < k"
  proof (rule ccontr)
    assume "\<not> m * m < k"
    then have "k \<le> m * m" by simp
    then have "grid_side k \<le> m" by (rule grid_side_least)
    with \<open>m < grid_side k\<close> show False by simp
  qed
qed

lemma grid_side_le: "grid_side k \<le> k"
proof (rule grid_side_least)
  show "k \<le> k * k" by (cases k) simp_all
qed

lemma takeWhile_less_upt: "n \<le> k \<Longrightarrow> takeWhile (\<lambda>m. m < n) [0..<k] = [0..<n]"
proof -
  assume "n \<le> k"
  then have "[0..<k] = [0..<n] @ [n..<k]"
    using upt_add_eq_append [of 0 n "k - n"] by simp
  moreover have "takeWhile (\<lambda>m. m < n) ([0..<n] @ [n..<k]) =
      [0..<n] @ takeWhile (\<lambda>m. m < n) [n..<k]"
    by (rule takeWhile_append2) simp
  moreover have "takeWhile (\<lambda>m. m < n) [n..<k] = []"
  proof (cases "n < k")
    case True
    then have "[n..<k] = n # [Suc n..<k]" by (rule upt_conv_Cons)
    then show ?thesis by simp
  next
    case False
    then show ?thesis by simp
  qed
  ultimately show ?thesis by simp
qed

lemma grid_side_code [code]:
  "grid_side k = length (takeWhile (\<lambda>m. m * m < k) [0..<k])"
proof -
  have "(\<lambda>m. m * m < k) = (\<lambda>m. m < grid_side k)"
    by (rule ext) (rule grid_side_below)
  moreover have "takeWhile (\<lambda>m. m < grid_side k) [0..<k] = [0..<grid_side k]"
    using grid_side_le by (rule takeWhile_less_upt)
  ultimately have "takeWhile (\<lambda>m. m * m < k) [0..<k] = [0..<grid_side k]"
    by (simp only:)
  then show ?thesis by simp
qed

subsection \<open>Blocks\<close>

declare block.simps [simp del]

lemma block_Cons_ok: "fst (c w) = None \<Longrightarrow> block (c # cs) w = block cs (snd (c w))"
  by (cases "c w") (simp add: block.simps)

lemma block_Cons_raise: "fst (c w) = Some e \<Longrightarrow> block (c # cs) w = (Some e, snd (c w))"
  by (cases "c w") (simp add: block.simps)

lemma block_ok_iff:
  "fst (block (c # cs) w) = None \<longleftrightarrow> fst (c w) = None \<and> fst (block cs (snd (c w))) = None"
  by (cases "c w"; cases "fst (c w)") (auto simp: block.simps)

lemma eval_Inr: "eval (Inr v) k = k v"
  by (rule ext) (simp add: eval_def)

lemma index_ok: "i < length xs \<Longrightarrow> index xs i = Inr (xs ! i)"
  by (simp add: index_def)

lemma get_points_Some:
  "get_points (Some sols) =
     Inr (DataFrame (map objectives sols), columns (DataFrame (map objectives sols)))"
  by (simp add: get_points_def Let_def)

lemma reference_eval:
  "(if truthy (reference_front self)
    then map_sum id (\<lambda>p. Some (fst p)) (get_points (reference_front self))
    else Inr None) = Inr (reference_value self)"
  by (cases "reference_front self") (simp_all add: reference_value_def get_points_Some)

subsection \<open>Statements only add to the log\<close>

lemma same_world: "\<exists>L. w = w\<lparr>calls := calls w @ L\<rparr> \<and> list_all Q L"
  by (rule exI [of _ "[]"]) simp

lemma more_world:
  "list_all Q K \<Longrightarrow> \<exists>L. w\<lparr>calls := calls w @ K\<rparr> = w\<lparr>calls := calls w @ L\<rparr> \<and> list_all Q L"
  by (rule exI [of _ K]) simp

lemma appendsI:
  "(\<And>w. \<exists>L. snd (c w) = w\<lparr>calls := calls w @ L\<rparr> \<and> list_all Q L) \<Longrightarrow> appends Q c"
  by (simp add: appends_def)

lemma appendsD: "appends Q c \<Longrightarrow> \<exists>L. snd (c w) = w\<lparr>calls := calls w @ L\<rparr> \<and> list_all Q L"
  by (simp add: appends_def)

lemma appends_call: "Q x \<Longrightarrow> appends Q (call x)"
  by (rule appendsI) (simp add: call_def more_world)

lemma appends_skip: "appends Q skip"
  by (rule appendsI) (simp add: skip_def same_world)

lemma appends_raise: "appends Q (raise e)"
  by (rule appendsI) (simp add: raise_def same_world)

lemma appends_eval: "(\<And>v. x = Inr v \<Longrightarrow> appends Q (k v)) \<Longrightarrow> appends Q (eval x k)"
  by (cases x) (simp_all add: appends_def eval_def same_world)

lemma appends_if_truthy:
  "(\<And>v. appends Q (k v)) \<Longrightarrow> appends Q e \<Longrightarrow> appends Q (if_truthy x k e)"
  by (simp add: if_truthy_def split: option.split)

lemma appends_if: "appends Q a \<Longrightarrow> appends Q b \<Longrightarrow> appends Q (if c then a else b)"
  by simp

lemma appends_block: "(\<And>c. c \<in> set cs \<Longrightarrow> appends Q c) \<Longrightarrow> appends Q (block cs)"
proof (induction cs)
  case Nil
  show ?case by (rule appendsI) (simp add: same_world block.simps)
next
  case (Cons c cs)
  have c: "appends Q c" and cs: "appends Q (block cs)"
    using Cons by simp_all
  show ?case
  proof (rule appendsI)
    fix w
    obtain L where L: "snd (c w) = w\<lparr>calls := calls w @ L\<rparr>" "list_all Q L"
      using appendsD [OF c] by blast
    obtain L' where L': "snd (block cs (snd (c w))) = (snd (c w))\<lparr>calls := calls (snd (c w)) @ L'\<rparr>"
      "list_all Q L'"
      using appendsD [OF cs] by blast
    show "\<exists>M. snd (block (c # cs) w) = w\<lparr>calls := calls w @ M\<rparr> \<and> list_all Q M"
    proof (cases "fst (c w)")
      case None
      then have "block (c # cs) w = block cs (snd (c w))"
        by (rule block_Cons_ok)
      with L L' have "snd (block (c # cs) w) = w\<lparr>calls := calls w @ (L @ L')\<rparr>"
        by simp
      moreover have "list_all Q (L @ L')" using L L' by simp
      ultimately show ?thesis by blast
    next
      case (Some e)
      then have "snd (block (c # cs) w) = snd (c w)"
        by (simp add: block_Cons_raise)
      with L show ?thesis by auto
    qed
  qed
qed

lemma appends_for_enumerate:
  "(\<And>i. i < length xs \<Longrightarrow> appends Q (body i)) \<Longrightarrow> appends Q (for_enumerate xs body)"
  unfolding for_enumerate_def by (rule appends_block) auto

lemmas appends_intros = appends_call appends_skip appends_raise appends_eval
  appends_if_truthy appends_if appends_block appends_for_enumerate

text \<open>In pass \<open>i\<close> every call has \<open>Q\<close> if the subplot call of that pass has it and all calls
  that are no subplot calls have it.\<close>

lemma appends_two_dim_body:
  assumes "Q (AddSubplot n n (i + 1) False)" and "\<And>x. \<not> is_subplot x \<Longrightarrow> Q x"
  shows "appends Q (two_dim_body self fronts labels reference n i)"
  unfolding two_dim_body_def
  by (intro appends_intros) (auto simp: assms [simplified] split: prod.split option.split intro!: appends_intros)

lemma appends_three_dim_body:
  assumes "Q (AddSubplot n n (i + 1) True)" and "\<And>x. \<not> is_subplot x \<Longrightarrow> Q x"
  shows "appends Q (three_dim_body self fronts labels n i)"
  unfolding three_dim_body_def
  by (intro appends_intros) (auto simp: assms [simplified] split: prod.split option.split intro!: appends_intros)

lemma appends_pcoords_body:
  assumes "Q (AddSubplot n n (i + 1) False)" and "\<And>x. \<not> is_subplot x \<Longrightarrow> Q x"
  shows "appends Q (pcoords_body self fronts normalise n i)"
  unfolding pcoords_body_def
  by (intro appends_intros)
    (auto simp: assms [simplified] Let_def split: prod.split option.split intro!: appends_intros)

subsection \<open>The log of a statement that ends normally\<close>

lemma ok_log_eq: "ok_log c A \<Longrightarrow> A = B \<Longrightarrow> ok_log c B"
  by simp

lemma ok_log_call: "ok_log (call x) [x]"
  by (simp add: ok_log_def call_def)

lemma ok_log_skip: "ok_log skip []"
  by (simp add: ok_log_def skip_def)

lemma ok_log_block_Nil: "ok_log (block []) []"
  by (simp add: ok_log_def block.simps)

lemma ok_log_block_Cons:
  assumes "ok_log c A" and "ok_log (block cs) B"
  shows "ok_log (block (c # cs)) (A @ B)"
  unfolding ok_log_def
proof (intro allI impI)
  fix w
  assume "fst (block (c # cs) w) = None"
  then have c: "fst (c w) = None" and cs: "fst (block cs (snd (c w))) = None"
    by (simp_all only: block_ok_iff)
  from c assms(1) have "snd (c w) = w\<lparr>calls := calls w @ A\<rparr>"
    by (simp add: ok_log_def)
  moreover from cs assms(2)
  have "snd (block cs (snd (c w))) = (snd (c w))\<lparr>calls := calls (snd (c w)) @ B\<rparr>"
    by (simp add: ok_log_def)
  ultimately show "snd (block (c # cs) w) = w\<lparr>calls := calls w @ A @ B\<rparr>"
    using c by (simp add: block_Cons_ok)
qed

lemma ok_log_loop:
  assumes "\<And>i. i \<in> set js \<Longrightarrow> ok_log (body i) (L i)"
  shows "ok_log (block (map body js)) (concat (map L js))"
  using assms
proof (induction js)
  case Nil
  show ?case by (simp add: ok_log_block_Nil)
next
  case (Cons j js)
  have "ok_log (block (body j # map body js)) (L j @ concat (map L js))"
    by (intro ok_log_block_Cons Cons.IH Cons.prems) simp_all
  then show ?case by simp
qed

lemma ok_log_for_enumerate:
  assumes "\<And>i. i < length xs \<Longrightarrow> ok_log (body i) (L i)"
  shows "ok_log (for_enumerate xs body) (concat (map L [0..<length xs]))"
  unfolding for_enumerate_def by (rule ok_log_loop) (simp add: assms)

lemmas stmt_defs = ok_log_def if_truthy_def when_truthy_def eval_def index_def call_def
  skip_def raise_def block.simps

lemma ok_log_set_title:
  "ok_log (if_truthy labels (\<lambda>ls. eval (index ls i) (\<lambda>l. call (SetTitle l))) skip)
     (when_truthy labels (\<lambda>ls. [SetTitle (ls ! i)]))"
  by (auto simp: stmt_defs split: option.splits if_splits)

lemma ok_log_line_plot:
  "ok_log (if_truthy (reference_front self)
             (\<lambda>_. case reference_value self of
                    None \<Rightarrow> raise AttributeError
                  | Some r \<Rightarrow> call (LinePlot r 0 1))
             skip)
     (when_truthy (reference_front self) (\<lambda>rf. [LinePlot (DataFrame (map objectives rf)) 0 1]))"
  by (auto simp: stmt_defs reference_value_def split: option.splits if_splits)

lemma ok_log_plot_marker:
  "ok_log (if_truthy (reference_point self)
             (\<lambda>p. eval (index p 0) (\<lambda>x. eval (index p 1) (\<lambda>y. call (PlotMarker x y))))
             skip)
     (when_truthy (reference_point self) (\<lambda>p. [PlotMarker (p ! 0) (p ! 1)]))"
  by (auto simp: stmt_defs split: option.splits if_splits)

lemma ok_log_xy_labels:
  "ok_log (if_truthy (axis_labels self)
             (\<lambda>ls. block [
                eval (index ls 0) (\<lambda>l. call (XLabel l)),
                eval (index ls 1) (\<lambda>l. call (YLabel l))])
             skip)
     (when_truthy (axis_labels self) (\<lambda>ls. [XLabel (ls ! 0), YLabel (ls ! 1)]))"
  by (auto simp: stmt_defs split: option.splits if_splits)

lemma ok_log_two_dim_body:
  assumes "i < length fronts"
  shows "ok_log (two_dim_body self fronts labels (reference_value self) n i)
           (two_dim_pass self fronts labels n i)"
  unfolding two_dim_body_def
  using assms
  apply (simp only: index_ok get_points_Some eval_Inr prod.case)
  apply (rule ok_log_eq)
   apply (rule ok_log_block_Cons ok_log_block_Nil ok_log_call ok_log_set_title ok_log_line_plot
      ok_log_plot_marker ok_log_xy_labels)+
  apply (simp add: two_dim_pass_def)
  done

lemma comprehension_ok:
  "comprehension (\<lambda>s. index (objectives s) j) sols = Inr vs \<Longrightarrow> vs = axis_values j sols"
proof (induction sols arbitrary: vs)
  case Nil
  then show ?case by (simp add: axis_values_def)
next
  case (Cons s sols)
  then show ?case
    by (auto simp: axis_values_def index_def split: sum.splits if_splits)
qed

lemma ok_log_scatter3d:
  "ok_log (eval (comprehension (\<lambda>s. index (objectives s) 0) sols) (\<lambda>xs.
           eval (comprehension (\<lambda>s. index (objectives s) 1) sols) (\<lambda>ys.
           eval (comprehension (\<lambda>s. index (objectives s) 2) sols) (\<lambda>zs.
           call (Scatter3D xs ys zs)))))
     [Scatter3D (axis_values 0 sols) (axis_values 1 sols) (axis_values 2 sols)]"
  by (auto simp: ok_log_def eval_def call_def split: sum.splits dest!: comprehension_ok)

lemma ok_log_reference_scatter3d:
  "ok_log (if_truthy (reference_front self)
             (\<lambda>rf.
                eval (comprehension (\<lambda>s. index (objectives s) 0) rf) (\<lambda>xs.
                eval (comprehension (\<lambda>s. index (objectives s) 1) rf) (\<lambda>ys.
                eval (comprehension (\<lambda>s. index (objectives s) 2) rf) (\<lambda>zs.
                call (Scatter3D xs ys zs)))))
             skip)
     (when_truthy (reference_front self)
        (\<lambda>rf. [Scatter3D (axis_values 0 rf) (axis_values 1 rf) (axis_values 2 rf)]))"
proof (cases "truthy (reference_front self)")
  case True
  then obtain rf where "reference_front self = Some rf" "rf \<noteq> []"
    by (cases "reference_front self") auto
  then show ?thesis
    using ok_log_scatter3d [of rf] by (simp add: if_truthy_def when_truthy_def)
next
  case False
  then show ?thesis
    by (cases "reference_front self") (auto simp: if_truthy_def when_truthy_def ok_log_skip)
qed

lemma ok_log_todo: "ok_log (if_truthy (reference_point self) (\<lambda>_. skip) skip) []"
  by (auto simp: ok_log_def if_truthy_def skip_def split: option.splits)

lemma ok_log_three_dim_body:
  assumes "i < length fronts"
  shows "ok_log (three_dim_body self fronts labels n i) (three_dim_pass self fronts labels n i)"
  unfolding three_dim_body_def
  using assms
  apply (simp only: index_ok eval_Inr)
  apply (rule ok_log_eq)
   apply (rule ok_log_block_Cons ok_log_block_Nil ok_log_call ok_log_set_title ok_log_scatter3d
      ok_log_reference_scatter3d ok_log_todo)+
  apply (simp add: three_dim_pass_def)
  done

lemma ok_log_tick_labels:
  "ok_log (if_truthy (axis_labels self) (\<lambda>ls. call (SetXTickLabels ls)) skip)
     (when_truthy (axis_labels self) (\<lambda>ls. [SetXTickLabels ls]))"
  by (auto simp: stmt_defs split: option.splits if_splits)

lemma ok_log_pcoords_body:
  assumes "i < length fronts"
  shows "ok_log (pcoords_body self fronts normalise n i) (pcoords_pass self fronts normalise n i)"
  unfolding pcoords_body_def
  using assms
  apply (simp only: index_ok get_points_Some eval_Inr prod.case Let_def)
  apply (rule ok_log_eq)
   apply (rule ok_log_block_Cons ok_log_block_Nil ok_log_call ok_log_tick_labels)+
  apply (simp add: pcoords_pass_def min_max_def)
  done

lemma ok_log_saved_or_shown:
  "ok_log (if_truthy filename (\<lambda>f. call (Savefig f format dpi)) (call Show))
     (saved_or_shown filename format dpi)"
  by (auto simp: ok_log_def if_truthy_def call_def saved_or_shown_def split: option.splits)

lemma ok_log_three_dim_output:
  "ok_log (if_truthy filename
             (\<lambda>f. if format = ''gif''
                  then block [
                         call (FuncAnimation 20),
                         call (LogInfo ''Generating GIF (this may take some time...)''),
                         if fronts = [] then raise NameError
                         else call (AnimSave (f @ ''.gif'') 24),
                         call (LogInfo ''Done'')]
                  else call (Savefig f format 1000))
             (call Show))
     (three_dim_output filename format)"
  by (auto simp: ok_log_def if_truthy_def call_def raise_def block.simps three_dim_output_def
      split: option.splits)

subsection \<open>The rendering methods\<close>

lemma block_enter: "block (enter b # cs) w = block cs (w\<lparr>entered := entered w @ [b]\<rparr>)"
  by (simp add: block_Cons_ok enter_def)

lemma method_frame:
  assumes "appends Q (block cs)"
  shows "\<exists>L. snd (block (enter b # cs) w) = w\<lparr>calls := calls w @ L, entered := entered w @ [b]\<rparr>
           \<and> list_all Q L"
proof -
  obtain L where "snd (block cs (w\<lparr>entered := entered w @ [b]\<rparr>)) =
      (w\<lparr>entered := entered w @ [b]\<rparr>)\<lparr>calls := calls (w\<lparr>entered := entered w @ [b]\<rparr>) @ L\<rparr>"
    and "list_all Q L"
    using appendsD [OF assms] by blast
  then have "snd (block (enter b # cs) w) = w\<lparr>calls := calls w @ L, entered := entered w @ [b]\<rparr>
      \<and> list_all Q L"
    by (simp add: block_enter)
  then show ?thesis ..
qed

lemma method_ok:
  assumes "ok_log (block cs) A" and "fst (block (enter b # cs) w) = None"
  shows "snd (block (enter b # cs) w) = w\<lparr>calls := calls w @ A, entered := entered w @ [b]\<rparr>"
  using assms by (simp add: block_enter ok_log_def)

lemma in_grid_pass: "i < k \<Longrightarrow> Suc i \<le> grid_side k * grid_side k"
  using grid_side_covers [of k] by simp

lemma in_grid_other: "\<not> is_subplot x \<Longrightarrow> in_grid n x"
  by (cases x) simp_all

lemma two_dim_frame:
  "\<exists>L. snd (two_dim fronts labels filename format w) =
          w\<lparr>calls := calls w @ L, entered := entered w @ [TwoDim]\<rparr>
      \<and> list_all (in_grid (grid_side (length fronts))) L"
  unfolding two_dim_def with_self_def Let_def
  by (rule method_frame)
    (intro appends_intros; auto simp: in_grid_pass in_grid_other
      intro!: appends_intros appends_two_dim_body)

lemma three_dim_frame:
  "\<exists>L. snd (three_dim fronts labels filename format w) =
          w\<lparr>calls := calls w @ L, entered := entered w @ [ThreeDim]\<rparr>
      \<and> list_all (in_grid (grid_side (length fronts))) L"
  unfolding three_dim_def with_self_def Let_def
  by (rule method_frame)
    (intro appends_intros; auto simp: in_grid_pass in_grid_other
      intro!: appends_intros appends_three_dim_body)

lemma pcoords_frame:
  "\<exists>L. snd (pcoords fronts normalise filename format w) =
          w\<lparr>calls := calls w @ L, entered := entered w @ [PCoords]\<rparr>
      \<and> list_all (in_grid (grid_side (length fronts))) L"
  unfolding pcoords_def with_self_def Let_def
  by (rule method_frame)
    (intro appends_intros; auto simp: in_grid_pass in_grid_other
      intro!: appends_intros appends_pcoords_body)

lemma two_dim_ok:
  assumes "fst (two_dim fronts labels filename format w) = None"
  shows "snd (two_dim fronts labels filename format w) =
         w\<lparr>calls := calls w @
              ([Figure, Suptitle (plot_title (inst w)) 16]
               @ concat (map (two_dim_pass (inst w) fronts labels (grid_side (length fronts)))
                   [0..<length fronts])
               @ saved_or_shown filename format 200 @ [Close]),
            entered := entered w @ [TwoDim]\<rparr>"
  using assms
  unfolding two_dim_def with_self_def Let_def reference_eval eval_Inr
  apply (rule method_ok [rotated])
  apply (rule ok_log_eq)
   apply (rule ok_log_block_Cons ok_log_block_Nil ok_log_call ok_log_saved_or_shown
      ok_log_for_enumerate ok_log_two_dim_body | assumption)+
  apply simp
  done

lemma three_dim_ok:
  assumes "fst (three_dim fronts labels filename format w) = None"
  shows "snd (three_dim fronts labels filename format w) =
         w\<lparr>calls := calls w @
              ([Figure, Suptitle (plot_title (inst w)) 16]
               @ concat (map (three_dim_pass (inst w) fronts labels (grid_side (length fronts)))
                   [0..<length fronts])
               @ three_dim_output filename format @ [Close]),
            entered := entered w @ [ThreeDim]\<rparr>"
  using assms
  unfolding three_dim_def with_self_def Let_def
  apply (rule method_ok [rotated])
  apply (rule ok_log_eq)
   apply (rule ok_log_block_Cons ok_log_block_Nil ok_log_call ok_log_three_dim_output
      ok_log_for_enumerate ok_log_three_dim_body | assumption)+
  apply simp
  done

lemma pcoords_ok:
  assumes "fst (pcoords fronts normalise filename format w) = None"
  shows "snd (pcoords fronts normalise filename format w) =
         w\<lparr>calls := calls w @
              ([Figure, Suptitle (plot_title (inst w)) 16]
               @ concat (map (pcoords_pass (inst w) fronts normalise (grid_side (length fronts)))
                   [0..<length fronts])
               @ saved_or_shown filename format 1000 @ [Close]),
            entered := entered w @ [PCoords]\<rparr>"
  using assms
  unfolding pcoords_def with_self_def Let_def
  apply (rule method_ok [rotated])
  apply (rule ok_log_eq)
   apply (rule ok_log_block_Cons ok_log_block_Nil ok_log_call ok_log_saved_or_shown
      ok_log_for_enumerate ok_log_pcoords_body | assumption)+
  apply simp
  done

subsection \<open>Statements that cannot raise\<close>

lemma succeeds_call: "succeeds (call x)"
  by (simp add: succeeds_def call_def)

lemma succeeds_enter: "succeeds (enter b)"
  by (simp add: succeeds_def enter_def)

lemma succeeds_skip: "succeeds skip"
  by (simp add: succeeds_def skip_def)

lemma succeeds_if_truthy: "(\<And>v. succeeds (k v)) \<Longrightarrow> succeeds e \<Longrightarrow> succeeds (if_truthy x k e)"
  by (simp add: if_truthy_def split: option.split)

lemma succeeds_block: "(\<And>c. c \<in> set cs \<Longrightarrow> succeeds c) \<Longrightarrow> succeeds (block cs)"
proof (induction cs)
  case Nil
  show ?case by (simp add: succeeds_def block.simps)
next
  case (Cons c cs)
  then have "succeeds c" and "succeeds (block cs)" by simp_all
  then show ?case by (simp add: succeeds_def block_ok_iff)
qed

lemma succeeds_for_enumerate:
  "(\<And>i. i < length xs \<Longrightarrow> succeeds (body i)) \<Longrightarrow> succeeds (for_enumerate xs body)"
  unfolding for_enumerate_def by (rule succeeds_block) auto

lemmas succeeds_intros = succeeds_call succeeds_enter succeeds_skip succeeds_if_truthy
  succeeds_block succeeds_for_enumerate

lemma succeeds_pcoords_body: "i < length fronts \<Longrightarrow> succeeds (pcoords_body self fronts normalise n i)"
  unfolding pcoords_body_def
  by (simp only: index_ok get_points_Some eval_Inr prod.case Let_def)
    (intro succeeds_intros; auto intro!: succeeds_intros)

lemma pcoords_succeeds: "fst (pcoords fronts normalise filename format w) = None"
proof -
  have "succeeds (pcoords fronts normalise filename format)"
    unfolding pcoords_def with_self_def Let_def
    unfolding succeeds_def
  proof
    fix w :: world
    have "succeeds (block
         [enter PCoords, call Figure, call (Suptitle (plot_title (inst w)) 16),
          for_enumerate fronts (pcoords_body (inst w) fronts normalise (grid_side (length fronts))),
          if_truthy filename (\<lambda>f. call (Savefig f format 1000)) (call Show), call Close])"
      by (intro succeeds_intros; auto intro!: succeeds_intros succeeds_pcoords_body)
    then show "fst (block
         [enter PCoords, call Figure, call (Suptitle (plot_title (inst w)) 16),
          for_enumerate fronts (pcoords_body (inst w) fronts normalise (grid_side (length fronts))),
          if_truthy filename (\<lambda>f. call (Savefig f format 1000)) (call Show), call Close] w) = None"
      by (simp add: succeeds_def)
  qed
  then show ?thesis by (simp add: succeeds_def)
qed

subsection \<open>The dispatch\<close>

lemma plot_first:
  assumes "first_solution front = Some s"
  shows "plot front label normalise filename format =
    (if number_of_objectives s = 2 then two_dim (as_fronts front) label filename format
     else if number_of_objectives s = 3 then three_dim (as_fronts front) label filename format
     else pcoords (as_fronts front) normalise filename format)"
  using assms
  by (cases front rule: first_solution.cases)
    (simp_all add: plot_def index_def eval_Inr Let_def)

lemma plot_no_first:
  assumes "first_solution front = None"
  shows "plot front label normalise filename format w = (Some IndexError, w)"
  using assms
  by (cases front rule: first_solution.cases)
    (simp_all add: plot_def index_def eval_def)

lemmas run_defs = plot_def index_def eval_def two_dim_def three_dim_def pcoords_def
  with_self_def call_def enter_def raise_def skip_def for_enumerate_def if_truthy_def
  two_dim_body_def three_dim_body_def pcoords_body_def get_points_def DataFrame_def
  block.simps start_def Plot_init_def trace_def outcome_def branches_def sol_def
  grid_side_one

lemma branches_two_dim: "branches (two_dim fronts labels filename format) self = [TwoDim]"
  using two_dim_frame [of fronts labels filename format "start self"]
  by (auto simp: branches_def start_def)

lemma branches_three_dim: "branches (three_dim fronts labels filename format) self = [ThreeDim]"
  using three_dim_frame [of fronts labels filename format "start self"]
  by (auto simp: branches_def start_def)

lemma branches_pcoords: "branches (pcoords fronts normalise filename format) self = [PCoords]"
  using pcoords_frame [of fronts normalise filename format "start self"]
  by (auto simp: branches_def start_def)

lemma branches_plot:
  assumes "first_solution front = Some s"
  shows "branches (plot front label normalise filename format) self =
    [if number_of_objectives s = 2 then TwoDim
     else if number_of_objectives s = 3 then ThreeDim else PCoords]"
  by (simp add: plot_first [OF assms] branches_two_dim branches_three_dim branches_pcoords)

text \<open>
  C1. When the argument has a first solution in its first front (after a flat list has
  been wrapped into a list of one front), \<open>plot\<close> is the call of exactly one rendering
  method: \<open>two_dim\<close> if that solution reports 2 objectives, \<open>three_dim\<close> if it reports 3,
  \<open>pcoords\<close> for every other number; and that method is the only one entered.
\<close>

theorem plot_dispatch:
  assumes "first_solution front = Some s"
  shows "plot front label normalise filename format =
           (if number_of_objectives s = 2 then two_dim (as_fronts front) label filename format
            else if number_of_objectives s = 3
            then three_dim (as_fronts front) label filename format
            else pcoords (as_fronts front) normalise filename format)
         \<and> branches (plot front label normalise filename format) self =
           [if number_of_objectives s = 2 then TwoDim
            else if number_of_objectives s = 3 then ThreeDim else PCoords]"
  using plot_first [OF assms] branches_plot [OF assms] by simp

theorem plot_dispatch_witness:
  "first_solution (Flat [sol [7]]) = Some (sol [7])
   \<and> number_of_objectives (sol [7]) = 1
   \<and> plot (Flat [sol [7]]) None False None ''eps'' = pcoords [[sol [7]]] False None ''eps''
   \<and> branches (plot (Flat [sol [7]]) None False None ''eps'') plain = [PCoords]"
  using plot_dispatch [of "Flat [sol [7]]" "sol [7]" None False None "''eps''" plain]
  by (auto simp: sol_def)

text \<open>
  C6. Two calls of \<open>plot\<close> whose first solutions report the same number of objectives
  enter the same rendering method, whatever the other solutions, the lengths of the
  objective vectors, the labels, the normalise flag, the file name, the format and the
  instance are.
\<close>

theorem branch_depends_on_reported_dimension:
  assumes "first_solution front = Some s" and "first_solution front' = Some s'"
    and "number_of_objectives s = number_of_objectives s'"
  shows "branches (plot front label normalise filename format) self =
         branches (plot front' label' normalise' filename' format') self'"
  using assms by (simp add: branches_plot)

theorem branch_depends_on_reported_dimension_witness:
  "first_solution (Flat [\<lparr>objectives = [1, 2, 3], number_of_objectives = 2\<rparr>]) =
     Some \<lparr>objectives = [1, 2, 3], number_of_objectives = 2\<rparr>
   \<and> first_solution (Nested [[sol [5, 6], sol [4]], [sol [1, 1, 1]]]) = Some (sol [5, 6])
   \<and> number_of_objectives \<lparr>objectives = [1, 2, 3], number_of_objectives = 2\<rparr> =
       number_of_objectives (sol [5, 6])
   \<and> branches (plot (Flat [\<lparr>objectives = [1, 2, 3], number_of_objectives = 2\<rparr>])
         None False None ''eps'') plain =
       branches (plot (Nested [[sol [5, 6], sol [4]], [sol [1, 1, 1]]])
         (Some [''a'', ''b'']) True (Some ''out'') ''png'') decorated"
  using branch_depends_on_reported_dimension
    [of "Flat [\<lparr>objectives = [1, 2, 3], number_of_objectives = 2\<rparr>]"
      "\<lparr>objectives = [1, 2, 3], number_of_objectives = 2\<rparr>"
      "Nested [[sol [5, 6], sol [4]], [sol [1, 1, 1]]]" "sol [5, 6]"
      None False None "''eps''" plain "Some [''a'', ''b'']" True "Some ''out''" "''png''" decorated]
  by (simp add: sol_def)

lemma inst_two_dim: "inst (snd (two_dim fronts labels filename format w)) = inst w"
  using two_dim_frame [of fronts labels filename format w] by auto

lemma inst_three_dim: "inst (snd (three_dim fronts labels filename format w)) = inst w"
  using three_dim_frame [of fronts labels filename format w] by auto

lemma inst_pcoords: "inst (snd (pcoords fronts normalise filename format w)) = inst w"
  using pcoords_frame [of fronts normalise filename format w] by auto

lemma inst_plot: "inst (snd (plot front label normalise filename format w)) = inst w"
proof (cases "first_solution front")
  case None
  then show ?thesis by (simp add: plot_no_first)
next
  case (Some s)
  then show ?thesis
    by (simp add: plot_first inst_two_dim inst_three_dim inst_pcoords)
qed

text \<open>
  C7. A call of \<open>plot\<close>, whichever method it reaches and whether or not it raises, leaves
  the instance as it was: title, axis labels, reference point, reference front and
  dimension. On an instance made by the constructor the dimension is still \<open>None\<close>
  afterwards.
\<close>

theorem plot_keeps_instance:
  "inst (snd (plot front label normalise filename format w)) = inst w
   \<and> dimension (inst (snd (plot front label normalise filename format
         (start (Plot_init title ref_front ref_point labels))))) = None"
  by (simp add: inst_plot start_def Plot_init_def)

theorem plot_keeps_instance_witness:
  "inst (snd (plot (Flat [sol [1, 2]]) None False None ''eps'' (start decorated))) = decorated
   \<and> dimension (inst (snd (plot (Flat [sol [1, 2]]) None False None ''eps''
         (start (Plot_init ''jMetalPy'' None None None))))) = None"
  using plot_keeps_instance [of "Flat [sol [1, 2]]" None False None "''eps''" "start decorated"]
    plot_keeps_instance [of "Flat [sol [1, 2]]" None False None "''eps''" "start decorated"
      "''jMetalPy''" None None None]
  by (simp add: start_def)

subsection \<open>Traces of the methods\<close>

lemma trace_two_dim:
  assumes "outcome (two_dim fronts labels filename format) self = None"
  shows "trace (two_dim fronts labels filename format) self =
         [Figure, Suptitle (plot_title self) 16]
         @ concat (map (two_dim_pass self fronts labels (grid_side (length fronts)))
             [0..<length fronts])
         @ saved_or_shown filename format 200 @ [Close]"
  using assms two_dim_ok [of fronts labels filename format "start self"]
  by (simp add: outcome_def trace_def start_def)

lemma trace_three_dim:
  assumes "outcome (three_dim fronts labels filename format) self = None"
  shows "trace (three_dim fronts labels filename format) self =
         [Figure, Suptitle (plot_title self) 16]
         @ concat (map (three_dim_pass self fronts labels (grid_side (length fronts)))
             [0..<length fronts])
         @ three_dim_output filename format @ [Close]"
  using assms three_dim_ok [of fronts labels filename format "start self"]
  by (simp add: outcome_def trace_def start_def)

lemma outcome_pcoords: "outcome (pcoords fronts normalise filename format) self = None"
  by (simp add: outcome_def pcoords_succeeds)

lemma trace_pcoords:
  "trace (pcoords fronts normalise filename format) self =
         [Figure, Suptitle (plot_title self) 16]
         @ concat (map (pcoords_pass self fronts normalise (grid_side (length fronts)))
             [0..<length fronts])
         @ saved_or_shown filename format 1000 @ [Close]"
  using pcoords_ok [of fronts normalise filename format "start self"]
  by (simp add: pcoords_succeeds trace_def start_def)

lemma in_grid_two_dim:
  "list_all (in_grid (grid_side (length fronts))) (trace (two_dim fronts labels filename format) self)"
  using two_dim_frame [of fronts labels filename format "start self"]
  by (auto simp: trace_def start_def)

lemma in_grid_three_dim:
  "list_all (in_grid (grid_side (length fronts))) (trace (three_dim fronts labels filename format) self)"
  using three_dim_frame [of fronts labels filename format "start self"]
  by (auto simp: trace_def start_def)

lemma in_grid_pcoords:
  "list_all (in_grid (grid_side (length fronts))) (trace (pcoords fronts normalise filename format) self)"
  using pcoords_frame [of fronts normalise filename format "start self"]
  by (auto simp: trace_def start_def)

lemma filter_when_truthy:
  "filter P (when_truthy x f) = when_truthy x (\<lambda>v. filter P (f v))"
  by (simp add: when_truthy_def split: option.split)

lemma when_truthy_Nil: "when_truthy x (\<lambda>v. []) = []"
  by (simp add: when_truthy_def split: option.split)

lemma subplots_two_dim_pass:
  "filter is_subplot (two_dim_pass self fronts labels n i) = [AddSubplot n n (i + 1) False]"
  by (simp add: two_dim_pass_def filter_when_truthy when_truthy_Nil)

lemma subplots_three_dim_pass:
  "filter is_subplot (three_dim_pass self fronts labels n i) = [AddSubplot n n (i + 1) True]"
  by (simp add: three_dim_pass_def filter_when_truthy when_truthy_Nil)

lemma subplots_pcoords_pass:
  "filter is_subplot (pcoords_pass self fronts normalise n i) = [AddSubplot n n (i + 1) False]"
  by (simp add: pcoords_pass_def filter_when_truthy when_truthy_Nil)

lemma subplots_saved_or_shown: "filter is_subplot (saved_or_shown filename format dpi) = []"
  by (simp add: saved_or_shown_def split: option.split)

lemma subplots_three_dim_output: "filter is_subplot (three_dim_output filename format) = []"
  by (simp add: three_dim_output_def split: option.split)

lemma concat_map_singleton: "concat (map (\<lambda>i. [f i]) xs) = map f xs"
  by (induction xs) simp_all

lemma subplots_two_dim:
  assumes "outcome (two_dim fronts labels filename format) self = None"
  shows "filter is_subplot (trace (two_dim fronts labels filename format) self) =
         map (\<lambda>i. AddSubplot (grid_side (length fronts)) (grid_side (length fronts)) (i + 1) False)
           [0..<length fronts]"
  by (simp add: trace_two_dim [OF assms] filter_concat comp_def subplots_two_dim_pass
      subplots_saved_or_shown concat_map_singleton)

lemma subplots_three_dim:
  assumes "outcome (three_dim fronts labels filename format) self = None"
  shows "filter is_subplot (trace (three_dim fronts labels filename format) self) =
         map (\<lambda>i. AddSubplot (grid_side (length fronts)) (grid_side (length fronts)) (i + 1) True)
           [0..<length fronts]"
  by (simp add: trace_three_dim [OF assms] filter_concat comp_def subplots_three_dim_pass
      subplots_three_dim_output concat_map_singleton)

lemma subplots_pcoords:
  "filter is_subplot (trace (pcoords fronts normalise filename format) self) =
         map (\<lambda>i. AddSubplot (grid_side (length fronts)) (grid_side (length fronts)) (i + 1) False)
           [0..<length fronts]"
  by (simp add: trace_pcoords filter_concat comp_def subplots_pcoords_pass
      subplots_saved_or_shown concat_map_singleton)

text \<open>
  C10. In each of the three rendering methods, with \<open>k\<close> fronts and the grid side
  \<open>n = ceil (sqrt k)\<close>: \<open>k \<le> n * n\<close>; every subplot call of a run, however the run ends,
  is for an \<open>n\<close> by \<open>n\<close> grid at a position from 1 to \<open>n * n\<close>; and a run that ends normally
  has given the fronts the positions 1 to \<open>k\<close>, in their order.
\<close>

theorem subplot_positions_in_grid:
  assumes "c = two_dim fronts labels filename format
         \<or> c = three_dim fronts labels filename format
         \<or> c = pcoords fronts normalise filename format"
  shows "length fronts \<le> grid_side (length fronts) * grid_side (length fronts)
       \<and> list_all (in_grid (grid_side (length fronts))) (trace c self)
       \<and> (outcome c self = None \<longrightarrow>
            map position (filter is_subplot (trace c self)) = map Suc [0..<length fronts])"
  using assms
  by (auto simp: grid_side_covers in_grid_two_dim in_grid_three_dim in_grid_pcoords
      subplots_two_dim subplots_three_dim subplots_pcoords comp_def)

theorem subplot_positions_in_grid_witness:
  "grid_side (length [[sol [1, 2, 3]], [sol [3, 2, 1]]]) = 2
   \<and> outcome (three_dim [[sol [1, 2, 3]], [sol [3, 2, 1]]] None None ''eps'') plain = None
   \<and> list_all (in_grid 2) (trace (three_dim [[sol [1, 2, 3]], [sol [3, 2, 1]]] None None ''eps'') plain)
   \<and> map position (filter is_subplot
        (trace (three_dim [[sol [1, 2, 3]], [sol [3, 2, 1]]] None None ''eps'') plain)) = [1, 2]"
proof -
  have side: "grid_side (length [[sol [1, 2, 3]], [sol [3, 2, 1]]]) = 2"
    by (simp add: grid_side_two)
  have ok: "outcome (three_dim [[sol [1, 2, 3]], [sol [3, 2, 1]]] None None ''eps'') plain = None"
    by (simp add: run_defs grid_side_two plain_def upt_rec)
  from subplot_positions_in_grid
    [of "three_dim [[sol [1, 2, 3]], [sol [3, 2, 1]]] None None ''eps''"
      "[[sol [1, 2, 3]], [sol [3, 2, 1]]]" None None "''eps''" False plain]
  show ?thesis
    using side ok by (simp add: upt_rec)
qed

subsection \<open>A flat list of solutions\<close>

lemma plot_flat_nested:
  "plot (Flat sols) label normalise filename format =
   plot (Nested [sols]) label normalise filename format"
proof (cases sols)
  case Nil
  show ?thesis
    unfolding Nil by (rule ext) (simp add: plot_def eval_def index_def)
next
  case (Cons s rest)
  have "first_solution (Flat sols) = Some s" and "first_solution (Nested [sols]) = Some s"
    by (simp_all add: Cons)
  then show ?thesis by (simp add: plot_first)
qed

text \<open>
  C9. \<open>plot\<close> of a flat list of solutions is \<open>plot\<close> of the list of fronts whose only
  front is that list: the same method, the same calls, the same outcome. When the list
  is not empty, every subplot call of the run is for position 1 of a 1 by 1 grid, and a
  run that ends normally has made exactly one.
\<close>

theorem flat_front_is_one_front:
  "plot (Flat sols) label normalise filename format =
     plot (Nested [sols]) label normalise filename format
   \<and> (sols = s # rest \<longrightarrow>
        branches (plot (Flat sols) label normalise filename format) self =
          branches (plot (Nested [sols]) label normalise filename format) self
        \<and> list_all (in_grid 1) (trace (plot (Flat sols) label normalise filename format) self)
        \<and> (outcome (plot (Flat sols) label normalise filename format) self = None \<longrightarrow>
             filter is_subplot (trace (plot (Flat sols) label normalise filename format) self) =
               [AddSubplot 1 1 1 (number_of_objectives s = 3)]))"
proof (intro conjI impI)
  show "plot (Flat sols) label normalise filename format =
        plot (Nested [sols]) label normalise filename format"
    by (rule plot_flat_nested)
next
  assume "sols = s # rest"
  show "branches (plot (Flat sols) label normalise filename format) self =
        branches (plot (Nested [sols]) label normalise filename format) self"
    by (simp add: plot_flat_nested)
next
  assume "sols = s # rest"
  then have first: "first_solution (Flat sols) = Some s" by simp
  show "list_all (in_grid 1) (trace (plot (Flat sols) label normalise filename format) self)"
    using in_grid_two_dim [of "[sols]" label filename format self]
      in_grid_three_dim [of "[sols]" label filename format self]
      in_grid_pcoords [of "[sols]" normalise filename format self]
    by (simp add: plot_first [OF first] grid_side_one)
next
  assume "sols = s # rest"
    and ok: "outcome (plot (Flat sols) label normalise filename format) self = None"
  then have first: "first_solution (Flat sols) = Some s" by simp
  show "filter is_subplot (trace (plot (Flat sols) label normalise filename format) self) =
        [AddSubplot 1 1 1 (number_of_objectives s = 3)]"
    using ok
    by (auto simp: plot_first [OF first] grid_side_one subplots_two_dim subplots_three_dim
        subplots_pcoords)
qed

theorem flat_front_is_one_front_witness:
  "plot (Flat [sol [1, 2], sol [2, 1]]) None False None ''eps'' =
     plot (Nested [[sol [1, 2], sol [2, 1]]]) None False None ''eps''
   \<and> outcome (plot (Flat [sol [1, 2], sol [2, 1]]) None False None ''eps'') plain = None
   \<and> branches (plot (Flat [sol [1, 2], sol [2, 1]]) None False None ''eps'') plain =
       branches (plot (Nested [[sol [1, 2], sol [2, 1]]]) None False None ''eps'') plain
   \<and> filter is_subplot (trace (plot (Flat [sol [1, 2], sol [2, 1]]) None False None ''eps'') plain) =
       [AddSubplot 1 1 1 False]"
proof -
  have ok: "outcome (plot (Flat [sol [1, 2], sol [2, 1]]) None False None ''eps'') plain = None"
    by (simp add: run_defs plain_def)
  note one = flat_front_is_one_front
    [of "[sol [1, 2], sol [2, 1]]" None False None "''eps''" "sol [1, 2]" "[sol [2, 1]]" plain]
  from one have "plot (Flat [sol [1, 2], sol [2, 1]]) None False None ''eps'' =
      plot (Nested [[sol [1, 2], sol [2, 1]]]) None False None ''eps''"
    by (rule conjunct1)
  moreover from one [THEN conjunct2] ok
  have "branches (plot (Flat [sol [1, 2], sol [2, 1]]) None False None ''eps'') plain =
       branches (plot (Nested [[sol [1, 2], sol [2, 1]]]) None False None ''eps'') plain
     \<and> filter is_subplot (trace (plot (Flat [sol [1, 2], sol [2, 1]]) None False None ''eps'') plain) =
       [AddSubplot 1 1 1 False]"
    by (simp add: sol_def)
  ultimately show ?thesis
    using ok by blast
qed

subsection \<open>Saving and showing\<close>

lemma output_two_dim_pass: "filter is_output (two_dim_pass self fronts labels n i) = []"
  by (simp add: two_dim_pass_def filter_when_truthy when_truthy_Nil)

lemma output_three_dim_pass: "filter is_output (three_dim_pass self fronts labels n i) = []"
  by (simp add: three_dim_pass_def filter_when_truthy when_truthy_Nil)

lemma output_pcoords_pass: "filter is_output (pcoords_pass self fronts normalise n i) = []"
  by (simp add: pcoords_pass_def filter_when_truthy when_truthy_Nil)

lemma concat_map_Nil: "concat (map (\<lambda>i. []) xs) = []"
  by (induction xs) simp_all

lemma output_saved_or_shown:
  "filter is_output (saved_or_shown filename format dpi) = saved_or_shown filename format dpi"
  by (simp add: saved_or_shown_def split: option.split)

lemma output_three_dim_output:
  "filter is_output (three_dim_output filename format) =
     (case filename of
        None \<Rightarrow> [Show]
      | Some f \<Rightarrow>
          if f = [] then [Show]
          else if format = ''gif'' then [AnimSave (f @ ''.gif'') 24]
          else [Savefig f format 1000])"
  by (simp add: three_dim_output_def split: option.split)

lemma output_two_dim:
  assumes "outcome (two_dim fronts labels filename format) self = None"
  shows "filter is_output (trace (two_dim fronts labels filename format) self) =
         saved_or_shown filename format 200"
  by (simp add: trace_two_dim [OF assms] filter_concat comp_def output_two_dim_pass
      output_saved_or_shown concat_map_Nil)

lemma output_three_dim:
  assumes "outcome (three_dim fronts labels filename format) self = None"
  shows "filter is_output (trace (three_dim fronts labels filename format) self) =
     (case filename of
        None \<Rightarrow> [Show]
      | Some f \<Rightarrow>
          if f = [] then [Show]
          else if format = ''gif'' then [AnimSave (f @ ''.gif'') 24]
          else [Savefig f format 1000])"
  by (simp add: trace_three_dim [OF assms] filter_concat comp_def output_three_dim_pass
      output_three_dim_output concat_map_Nil)

lemma output_pcoords:
  "filter is_output (trace (pcoords fronts normalise filename format) self) =
         saved_or_shown filename format 1000"
  by (simp add: trace_pcoords filter_concat comp_def output_pcoords_pass
      output_saved_or_shown concat_map_Nil)

text \<open>
  C5 as the code has it. A call of \<open>plot\<close> that ends normally puts the figure out exactly
  once. With a file name that is neither \<open>None\<close> nor the empty string the figure is saved
  and not shown: as an animation under the file name followed by \<open>.gif\<close> exactly when the
  first solution reports 3 objectives and the format is \<open>gif\<close>, as an image under the file
  name in the given format otherwise. With the file name \<open>None\<close> or the empty string the
  figure is shown.
\<close>

theorem output_of_plot:
  assumes "first_solution front = Some s"
    and "outcome (plot front label normalise filename format) self = None"
  shows "filter is_output (trace (plot front label normalise filename format) self) =
     (case filename of
        None \<Rightarrow> [Show]
      | Some f \<Rightarrow>
          if f = [] then [Show]
          else if number_of_objectives s = 3 \<and> format = ''gif''
          then [AnimSave (f @ ''.gif'') 24]
          else [Savefig f format (if number_of_objectives s = 2 then 200 else 1000)])"
  using assms(2)
  by (auto simp: plot_first [OF assms(1)] output_two_dim output_three_dim output_pcoords
      saved_or_shown_def split: option.split if_splits)

theorem output_of_plot_witness:
  "first_solution (Flat [sol [1, 2, 3]]) = Some (sol [1, 2, 3])
   \<and> outcome (plot (Flat [sol [1, 2, 3]]) None False (Some ''front'') ''gif'') plain = None
   \<and> filter is_output (trace (plot (Flat [sol [1, 2, 3]]) None False (Some ''front'') ''gif'') plain)
       = [AnimSave ''front.gif'' 24]"
proof -
  have first: "first_solution (Flat [sol [1, 2, 3]]) = Some (sol [1, 2, 3])"
    by simp
  have ok: "outcome (plot (Flat [sol [1, 2, 3]]) None False (Some ''front'') ''gif'') plain = None"
    by (simp add: run_defs plain_def)
  from output_of_plot [OF first ok] first ok show ?thesis
    by (simp add: sol_def)
qed

text \<open>
  C5 as stated fails: the empty string is a file name other than \<open>None\<close>, and with it the
  figure is shown and nothing is saved.
\<close>

theorem empty_filename_counterexample:
  "Some '''' \<noteq> (None :: string option)
   \<and> outcome (plot (Flat [sol [1, 2]]) None False (Some '''') ''png'') plain = None
   \<and> filter is_output (trace (plot (Flat [sol [1, 2]]) None False (Some '''') ''png'') plain)
       = [Show]"
  by (simp add: run_defs plain_def)

subsection \<open>Reference point and reference front\<close>

lemma marked_two_dim_pass:
  assumes "reference_point self = Some p" and "p \<noteq> []"
  shows "filter (\<lambda>x. is_subplot x \<or> is_marker x) (two_dim_pass self fronts labels n i) =
         [AddSubplot n n (i + 1) False, PlotMarker (p ! 0) (p ! 1)]"
  using assms
  by (simp add: two_dim_pass_def filter_when_truthy when_truthy_Nil) (simp add: when_truthy_def)

lemma marked_saved_or_shown:
  "filter (\<lambda>x. is_subplot x \<or> is_marker x) (saved_or_shown filename format dpi) = []"
  by (simp add: saved_or_shown_def split: option.split)

lemma pcoords_pass_reference_point:
  "pcoords_pass (self\<lparr>reference_point := rp\<rparr>) = pcoords_pass self"
  by (intro ext) (simp add: pcoords_pass_def)

lemma pcoords_pass_reference_front:
  "pcoords_pass (self\<lparr>reference_front := rf\<rparr>) = pcoords_pass self"
  by (intro ext) (simp add: pcoords_pass_def)

text \<open>
  C2 as the code has it by design. When the reference point of the instance is a
  non-empty list, a run of \<open>two_dim\<close> that ends normally has drawn the marker at its first
  two coordinates on every subplot: each subplot call is followed by one marker call
  before the next subplot call. The calls of \<open>pcoords\<close> do not depend on the reference
  point. (Nothing is said about \<open>three_dim\<close>.)
\<close>

theorem reference_point_overlay:
  "(reference_point self = Some p \<and> p \<noteq> []
      \<and> outcome (two_dim fronts labels filename format) self = None \<longrightarrow>
      filter (\<lambda>x. is_subplot x \<or> is_marker x)
        (trace (two_dim fronts labels filename format) self) =
      concat (map (\<lambda>i. [AddSubplot (grid_side (length fronts)) (grid_side (length fronts))
                          (i + 1) False,
                        PlotMarker (p ! 0) (p ! 1)])
        [0..<length fronts]))
   \<and> trace (pcoords fronts normalise filename format) (self\<lparr>reference_point := rp\<rparr>) =
     trace (pcoords fronts normalise filename format) self"
proof (intro conjI impI)
  assume a: "reference_point self = Some p \<and> p \<noteq> []
      \<and> outcome (two_dim fronts labels filename format) self = None"
  then have ok: "outcome (two_dim fronts labels filename format) self = None"
    and p: "reference_point self = Some p" "p \<noteq> []"
    by simp_all
  show "filter (\<lambda>x. is_subplot x \<or> is_marker x)
        (trace (two_dim fronts labels filename format) self) =
      concat (map (\<lambda>i. [AddSubplot (grid_side (length fronts)) (grid_side (length fronts))
                          (i + 1) False,
                        PlotMarker (p ! 0) (p ! 1)])
        [0..<length fronts])"
    by (simp add: trace_two_dim [OF ok] filter_concat comp_def marked_two_dim_pass [OF p]
        marked_saved_or_shown)
next
  show "trace (pcoords fronts normalise filename format) (self\<lparr>reference_point := rp\<rparr>) =
        trace (pcoords fronts normalise filename format) self"
    by (simp add: trace_pcoords pcoords_pass_reference_point)
qed

theorem reference_point_overlay_witness:
  "reference_point (Plot_init ''jMetalPy'' None (Some [1 / 2, 1 / 2]) None) = Some [1 / 2, 1 / 2]
   \<and> outcome (two_dim [[sol [0, 1], sol [1, 0]]] None None ''eps'')
        (Plot_init ''jMetalPy'' None (Some [1 / 2, 1 / 2]) None) = None
   \<and> filter (\<lambda>x. is_subplot x \<or> is_marker x)
        (trace (two_dim [[sol [0, 1], sol [1, 0]]] None None ''eps'')
          (Plot_init ''jMetalPy'' None (Some [1 / 2, 1 / 2]) None)) =
       [AddSubplot 1 1 1 False, PlotMarker (1 / 2) (1 / 2)]"
proof -
  have p: "reference_point (Plot_init ''jMetalPy'' None (Some [1 / 2, 1 / 2]) None) =
      Some [1 / 2, 1 / 2]"
    by (simp add: Plot_init_def)
  have ok: "outcome (two_dim [[sol [0, 1], sol [1, 0]]] None None ''eps'')
        (Plot_init ''jMetalPy'' None (Some [1 / 2, 1 / 2]) None) = None"
    by (simp add: run_defs)
  from reference_point_overlay
    [of "Plot_init ''jMetalPy'' None (Some [1 / 2, 1 / 2]) None" "[1 / 2, 1 / 2]"
      "[[sol [0, 1], sol [1, 0]]]" None None "''eps''", THEN conjunct1] p ok
  show ?thesis
    by (simp add: grid_side_one)
qed

text \<open>
  C2 as stated fails: with a reference point on the instance, a run that takes the
  parallel-coordinates method makes no call that draws it.
\<close>

theorem reference_point_counterexample:
  "reference_point (Plot_init ''jMetalPy'' None (Some [1, 1, 1, 1]) None) = Some [1, 1, 1, 1]
   \<and> branches (plot (Flat [sol [1, 2, 3, 4]]) None False None ''eps'')
       (Plot_init ''jMetalPy'' None (Some [1, 1, 1, 1]) None) = [PCoords]
   \<and> trace (plot (Flat [sol [1, 2, 3, 4]]) None False None ''eps'')
       (Plot_init ''jMetalPy'' None (Some [1, 1, 1, 1]) None) =
     [Figure, Suptitle ''jMetalPy'' 16, AddSubplot 1 1 1 False,
      ParallelCoordinates \<lparr>columns = 4, rows = [[Num 1, Num 2, Num 3, Num 4]]\<rparr> 0,
      LegendRemove, Show, Close]"
  by (simp add: run_defs)

text \<open>
  The 3D method tests the reference point and then does nothing (\<^verbatim>\<open>pass\<close> under
  \<^verbatim>\<open># todo\<close>): at this input, with a reference point on the instance, it draws the
  points of the front and no reference point.
\<close>

lemma three_dim_reference_point_todo:
  "reference_point (Plot_init ''jMetalPy'' None (Some [1, 1, 1]) None) = Some [1, 1, 1]
   \<and> branches (plot (Flat [sol [1, 2, 3]]) None False None ''eps'')
       (Plot_init ''jMetalPy'' None (Some [1, 1, 1]) None) = [ThreeDim]
   \<and> trace (plot (Flat [sol [1, 2, 3]]) None False None ''eps'')
       (Plot_init ''jMetalPy'' None (Some [1, 1, 1]) None) =
     [Figure, Suptitle ''jMetalPy'' 16, AddSubplot 1 1 1 True, Scatter3D [1] [2] [3],
      Relim, AutoscaleView, ViewInit 30 15, LocatorParams 4, Show, Close]"
  by (simp add: run_defs)

lemma lined_two_dim_pass:
  assumes "reference_front self = Some rf" and "rf \<noteq> []"
  shows "filter (\<lambda>x. is_subplot x \<or> is_line x) (two_dim_pass self fronts labels n i) =
         [AddSubplot n n (i + 1) False, LinePlot (DataFrame (map objectives rf)) 0 1]"
  using assms
  by (simp add: two_dim_pass_def filter_when_truthy when_truthy_Nil) (simp add: when_truthy_def)

lemma lined_saved_or_shown:
  "filter (\<lambda>x. is_subplot x \<or> is_line x) (saved_or_shown filename format dpi) = []"
  by (simp add: saved_or_shown_def split: option.split)

lemma scattered_three_dim_pass:
  assumes "reference_front self = Some rf" and "rf \<noteq> []"
  shows "filter (\<lambda>x. is_subplot x \<or> is_scatter3d x) (three_dim_pass self fronts labels n i) =
         [AddSubplot n n (i + 1) True,
          Scatter3D (axis_values 0 (fronts ! i)) (axis_values 1 (fronts ! i))
            (axis_values 2 (fronts ! i)),
          Scatter3D (axis_values 0 rf) (axis_values 1 rf) (axis_values 2 rf)]"
  using assms
  by (simp add: three_dim_pass_def filter_when_truthy when_truthy_Nil) (simp add: when_truthy_def)

lemma scattered_three_dim_output:
  "filter (\<lambda>x. is_subplot x \<or> is_scatter3d x) (three_dim_output filename format) = []"
  by (simp add: three_dim_output_def split: option.split)

text \<open>
  C4 as the code has it by design. When the reference front of the instance is a
  non-empty list, a run of \<open>two_dim\<close> that ends normally has drawn the line through the
  reference front on every subplot, and a run of \<open>three_dim\<close> that ends normally has
  drawn, on every subplot, the points of the front and then the points of the reference
  front. The calls of \<open>pcoords\<close> do not depend on the reference front.
\<close>

theorem reference_front_overlay:
  "(reference_front self = Some rf \<and> rf \<noteq> []
      \<and> outcome (two_dim fronts labels filename format) self = None \<longrightarrow>
      filter (\<lambda>x. is_subplot x \<or> is_line x)
        (trace (two_dim fronts labels filename format) self) =
      concat (map (\<lambda>i. [AddSubplot (grid_side (length fronts)) (grid_side (length fronts))
                          (i + 1) False,
                        LinePlot (DataFrame (map objectives rf)) 0 1])
        [0..<length fronts]))
   \<and> (reference_front self = Some rf \<and> rf \<noteq> []
      \<and> outcome (three_dim fronts labels filename format) self = None \<longrightarrow>
      filter (\<lambda>x. is_subplot x \<or> is_scatter3d x)
        (trace (three_dim fronts labels filename format) self) =
      concat (map (\<lambda>i. [AddSubplot (grid_side (length fronts)) (grid_side (length fronts))
                          (i + 1) True,
                        Scatter3D (axis_values 0 (fronts ! i)) (axis_values 1 (fronts ! i))
                          (axis_values 2 (fronts ! i)),
                        Scatter3D (axis_values 0 rf) (axis_values 1 rf) (axis_values 2 rf)])
        [0..<length fronts]))
   \<and> trace (pcoords fronts normalise filename format) (self\<lparr>reference_front := other\<rparr>) =
     trace (pcoords fronts normalise filename format) self"
proof (intro conjI impI)
  assume "reference_front self = Some rf \<and> rf \<noteq> []
      \<and> outcome (two_dim fronts labels filename format) self = None"
  then have ok: "outcome (two_dim fronts labels filename format) self = None"
    and rf: "reference_front self = Some rf" "rf \<noteq> []"
    by simp_all
  show "filter (\<lambda>x. is_subplot x \<or> is_line x)
        (trace (two_dim fronts labels filename format) self) =
      concat (map (\<lambda>i. [AddSubplot (grid_side (length fronts)) (grid_side (length fronts))
                          (i + 1) False,
                        LinePlot (DataFrame (map objectives rf)) 0 1])
        [0..<length fronts])"
    by (simp add: trace_two_dim [OF ok] filter_concat comp_def lined_two_dim_pass [OF rf]
        lined_saved_or_shown)
next
  assume "reference_front self = Some rf \<and> rf \<noteq> []
      \<and> outcome (three_dim fronts labels filename format) self = None"
  then have ok: "outcome (three_dim fronts labels filename format) self = None"
    and rf: "reference_front self = Some rf" "rf \<noteq> []"
    by simp_all
  show "filter (\<lambda>x. is_subplot x \<or> is_scatter3d x)
        (trace (three_dim fronts labels filename format) self) =
      concat (map (\<lambda>i. [AddSubplot (grid_side (length fronts)) (grid_side (length fronts))
                          (i + 1) True,
                        Scatter3D (axis_values 0 (fronts ! i)) (axis_values 1 (fronts ! i))
                          (axis_values 2 (fronts ! i)),
                        Scatter3D (axis_values 0 rf) (axis_values 1 rf) (axis_values 2 rf)])
        [0..<length fronts])"
    by (simp add: trace_three_dim [OF ok] filter_concat comp_def scattered_three_dim_pass [OF rf]
        scattered_three_dim_output)
next
  show "trace (pcoords fronts normalise filename format) (self\<lparr>reference_front := other\<rparr>) =
        trace (pcoords fronts normalise filename format) self"
    by (simp add: trace_pcoords pcoords_pass_reference_front)
qed

theorem reference_front_overlay_witness:
  "reference_front decorated = Some [sol [0, 1, 2], sol [2, 1, 0]]
   \<and> outcome (two_dim [[sol [1, 2]]] None None ''eps'') decorated = None
   \<and> filter (\<lambda>x. is_subplot x \<or> is_line x)
       (trace (two_dim [[sol [1, 2]]] None None ''eps'') decorated) =
     [AddSubplot 1 1 1 False,
      LinePlot (DataFrame [[0, 1, 2], [2, 1, 0]]) 0 1]
   \<and> outcome (three_dim [[sol [1, 2, 3]]] None None ''eps'') decorated = None
   \<and> filter (\<lambda>x. is_subplot x \<or> is_scatter3d x)
       (trace (three_dim [[sol [1, 2, 3]]] None None ''eps'') decorated) =
     [AddSubplot 1 1 1 True, Scatter3D [1] [2] [3], Scatter3D [0, 2] [1, 1] [2, 0]]"
proof -
  have rf: "reference_front decorated = Some [sol [0, 1, 2], sol [2, 1, 0]]"
    by (simp add: decorated_def Plot_init_def)
  have ok2: "outcome (two_dim [[sol [1, 2]]] None None ''eps'') decorated = None"
    by (simp add: run_defs decorated_def)
  have ok3: "outcome (three_dim [[sol [1, 2, 3]]] None None ''eps'') decorated = None"
    by (simp add: run_defs decorated_def)
  note two = reference_front_overlay
    [of decorated "[sol [0, 1, 2], sol [2, 1, 0]]" "[[sol [1, 2]]]" None None "''eps''",
      THEN conjunct1]
  note three = reference_front_overlay
    [of decorated "[sol [0, 1, 2], sol [2, 1, 0]]" "[[sol [1, 2, 3]]]" None None "''eps''",
      THEN conjunct2, THEN conjunct1]
  from two rf ok2
  have "filter (\<lambda>x. is_subplot x \<or> is_line x)
       (trace (two_dim [[sol [1, 2]]] None None ''eps'') decorated) =
     [AddSubplot 1 1 1 False, LinePlot (DataFrame [[0, 1, 2], [2, 1, 0]]) 0 1]"
    by (simp add: grid_side_one sol_def)
  moreover from three rf ok3
  have "filter (\<lambda>x. is_subplot x \<or> is_scatter3d x)
       (trace (three_dim [[sol [1, 2, 3]]] None None ''eps'') decorated) =
     [AddSubplot 1 1 1 True, Scatter3D [1] [2] [3], Scatter3D [0, 2] [1, 1] [2, 0]]"
    by (simp add: grid_side_one sol_def axis_values_def)
  ultimately show ?thesis
    using rf ok2 ok3 by blast
qed

text \<open>
  C4 as stated fails: with a reference front on the instance, a run that takes the
  parallel-coordinates method makes no call that draws it.
\<close>

theorem reference_front_counterexample:
  "reference_front (Plot_init ''jMetalPy'' (Some [sol [0, 0, 0, 0]]) None None) =
     Some [sol [0, 0, 0, 0]]
   \<and> branches (plot (Flat [sol [1, 2, 3, 4]]) None False None ''eps'')
       (Plot_init ''jMetalPy'' (Some [sol [0, 0, 0, 0]]) None None) = [PCoords]
   \<and> trace (plot (Flat [sol [1, 2, 3, 4]]) None False None ''eps'')
       (Plot_init ''jMetalPy'' (Some [sol [0, 0, 0, 0]]) None None) =
     [Figure, Suptitle ''jMetalPy'' 16, AddSubplot 1 1 1 False,
      ParallelCoordinates \<lparr>columns = 4, rows = [[Num 1, Num 2, Num 3, Num 4]]\<rparr> 0,
      LegendRemove, Show, Close]"
  by (simp add: run_defs)

subsection \<open>The data handed to the plotting library\<close>

lemma map_index: "map (\<lambda>i. f (xs ! i)) [0..<length xs] = map f xs"
  by (rule nth_equalityI) simp_all

lemma scatter_two_dim_pass:
  "filter is_scatter (two_dim_pass self fronts labels n i) =
     [ScatterPlot (DataFrame (map objectives (fronts ! i))) 0 1]"
  by (simp add: two_dim_pass_def filter_when_truthy when_truthy_Nil)

lemma scatter_saved_or_shown: "filter is_scatter (saved_or_shown filename format dpi) = []"
  by (simp add: saved_or_shown_def split: option.split)

lemma scatter3d_three_dim_pass:
  "filter is_scatter3d (three_dim_pass self fronts labels n i) =
     Scatter3D (axis_values 0 (fronts ! i)) (axis_values 1 (fronts ! i))
       (axis_values 2 (fronts ! i))
     # when_truthy (reference_front self)
         (\<lambda>rf. [Scatter3D (axis_values 0 rf) (axis_values 1 rf) (axis_values 2 rf)])"
  by (simp add: three_dim_pass_def filter_when_truthy when_truthy_Nil)

lemma scatter3d_three_dim_output: "filter is_scatter3d (three_dim_output filename format) = []"
  by (simp add: three_dim_output_def split: option.split)

lemma parallel_pcoords_pass:
  "filter is_parallel (pcoords_pass self fronts normalise n i) =
     [ParallelCoordinates
        (if normalise then min_max (DataFrame (map objectives (fronts ! i)))
         else DataFrame (map objectives (fronts ! i))) 0]"
  by (simp add: pcoords_pass_def filter_when_truthy when_truthy_Nil)

lemma parallel_saved_or_shown: "filter is_parallel (saved_or_shown filename format dpi) = []"
  by (simp add: saved_or_shown_def split: option.split)

text \<open>
  C3 as the code has it. A run of \<open>two_dim\<close> that ends normally has handed each front's
  dataframe of objective values to the scatter plot as \<open>get_points\<close> built it; a run of
  \<open>three_dim\<close> that ends normally has handed over the first three objective values of
  the solutions of each front (and then those of the reference front, if there is one).
  \<open>pcoords\<close> hands each front's dataframe to the parallel-coordinates plot unchanged
  when \<open>normalise\<close> is false; when it is true, \<open>pcoords\<close> itself first replaces the
  dataframe by \<open>(points - min) / (max - min)\<close>, taken column by column.
\<close>

theorem plotted_data:
  "(outcome (two_dim fronts labels filename format) self = None \<longrightarrow>
      filter is_scatter (trace (two_dim fronts labels filename format) self) =
      map (\<lambda>front. ScatterPlot (DataFrame (map objectives front)) 0 1) fronts)
   \<and> (outcome (three_dim fronts labels filename format) self = None \<longrightarrow>
      filter is_scatter3d (trace (three_dim fronts labels filename format) self) =
      concat (map (\<lambda>front.
          Scatter3D (axis_values 0 front) (axis_values 1 front) (axis_values 2 front)
          # when_truthy (reference_front self)
              (\<lambda>rf. [Scatter3D (axis_values 0 rf) (axis_values 1 rf) (axis_values 2 rf)]))
        fronts))
   \<and> filter is_parallel (trace (pcoords fronts normalise filename format) self) =
      map (\<lambda>front. ParallelCoordinates
            (if normalise then min_max (DataFrame (map objectives front))
             else DataFrame (map objectives front)) 0) fronts"
proof (intro conjI impI)
  assume ok: "outcome (two_dim fronts labels filename format) self = None"
  have "filter is_scatter (trace (two_dim fronts labels filename format) self) =
      map (\<lambda>i. ScatterPlot (DataFrame (map objectives (fronts ! i))) 0 1) [0..<length fronts]"
    by (simp add: trace_two_dim [OF ok] filter_concat comp_def scatter_two_dim_pass
        scatter_saved_or_shown concat_map_singleton)
  then show "filter is_scatter (trace (two_dim fronts labels filename format) self) =
      map (\<lambda>front. ScatterPlot (DataFrame (map objectives front)) 0 1) fronts"
    using map_index [of "\<lambda>front. ScatterPlot (DataFrame (map objectives front)) 0 1" fronts]
    by simp
next
  assume ok: "outcome (three_dim fronts labels filename format) self = None"
  have "filter is_scatter3d (trace (three_dim fronts labels filename format) self) =
      concat (map (\<lambda>i.
          Scatter3D (axis_values 0 (fronts ! i)) (axis_values 1 (fronts ! i))
            (axis_values 2 (fronts ! i))
          # when_truthy (reference_front self)
              (\<lambda>rf. [Scatter3D (axis_values 0 rf) (axis_values 1 rf) (axis_values 2 rf)]))
        [0..<length fronts])"
    by (simp add: trace_three_dim [OF ok] filter_concat comp_def scatter3d_three_dim_pass
        scatter3d_three_dim_output)
  then show "filter is_scatter3d (trace (three_dim fronts labels filename format) self) =
      concat (map (\<lambda>front.
          Scatter3D (axis_values 0 front) (axis_values 1 front) (axis_values 2 front)
          # when_truthy (reference_front self)
              (\<lambda>rf. [Scatter3D (axis_values 0 rf) (axis_values 1 rf) (axis_values 2 rf)]))
        fronts)"
    using map_index [of "\<lambda>front.
          Scatter3D (axis_values 0 front) (axis_values 1 front) (axis_values 2 front)
          # when_truthy (reference_front self)
              (\<lambda>rf. [Scatter3D (axis_values 0 rf) (axis_values 1 rf) (axis_values 2 rf)])" fronts]
    by simp
next
  have "filter is_parallel (trace (pcoords fronts normalise filename format) self) =
      map (\<lambda>i. ParallelCoordinates
            (if normalise then min_max (DataFrame (map objectives (fronts ! i)))
             else DataFrame (map objectives (fronts ! i))) 0) [0..<length fronts]"
    by (simp add: trace_pcoords filter_concat comp_def parallel_pcoords_pass
        parallel_saved_or_shown concat_map_singleton)
  then show "filter is_parallel (trace (pcoords fronts normalise filename format) self) =
      map (\<lambda>front. ParallelCoordinates
            (if normalise then min_max (DataFrame (map objectives front))
             else DataFrame (map objectives front)) 0) fronts"
    using map_index [of "\<lambda>front. ParallelCoordinates
            (if normalise then min_max (DataFrame (map objectives front))
             else DataFrame (map objectives front)) 0" fronts]
    by simp
qed

lemmas frame_defs = min_max_def df_min_def df_max_def column_min_def column_max_def column_def
  df_sub_series_def df_div_series_def series_sub_def

theorem plotted_data_witness:
  "outcome (two_dim [[sol [1, 2]], [sol [3, 4]]] None None ''eps'') plain = None
   \<and> filter is_scatter (trace (two_dim [[sol [1, 2]], [sol [3, 4]]] None None ''eps'') plain) =
     [ScatterPlot (DataFrame [[1, 2]]) 0 1, ScatterPlot (DataFrame [[3, 4]]) 0 1]
   \<and> outcome (three_dim [[sol [1, 2, 3], sol [4, 5, 6]]] None None ''eps'') plain = None
   \<and> filter is_scatter3d
       (trace (three_dim [[sol [1, 2, 3], sol [4, 5, 6]]] None None ''eps'') plain) =
     [Scatter3D [1, 4] [2, 5] [3, 6]]
   \<and> filter is_parallel
       (trace (pcoords [[sol [1, 2, 3, 4], sol [2, 3, 4, 5], sol [3, 6, 5, 8]]] True None ''eps'')
          plain) =
     [ParallelCoordinates
        \<lparr>columns = 4,
           rows = [[Num 0, Num 0, Num 0, Num 0],
                   [Num (1 / 2), Num (1 / 4), Num (1 / 2), Num (1 / 4)],
                   [Num 1, Num 1, Num 1, Num 1]]\<rparr> 0]"
proof -
  have ok2: "outcome (two_dim [[sol [1, 2]], [sol [3, 4]]] None None ''eps'') plain = None"
    by (simp add: run_defs grid_side_two plain_def upt_rec)
  have ok3: "outcome (three_dim [[sol [1, 2, 3], sol [4, 5, 6]]] None None ''eps'') plain = None"
    by (simp add: run_defs plain_def)
  have frame: "min_max (DataFrame [[1, 2, 3, 4], [2, 3, 4, 5], [3, 6, 5, 8]]) =
        \<lparr>columns = 4,
           rows = [[Num 0, Num 0, Num 0, Num 0],
                   [Num (1 / 2), Num (1 / 4), Num (1 / 2), Num (1 / 4)],
                   [Num 1, Num 1, Num 1, Num 1]]\<rparr>"
    by (simp add: frame_defs DataFrame_def)
  note two = plotted_data
    [of "[[sol [1, 2]], [sol [3, 4]]]" None None "''eps''" plain, THEN conjunct1]
  note three = plotted_data
    [of "[[sol [1, 2, 3], sol [4, 5, 6]]]" None None "''eps''" plain, THEN conjunct2,
      THEN conjunct1]
  note par = plotted_data
    [of "[[sol [1, 2, 3, 4], sol [2, 3, 4, 5], sol [3, 6, 5, 8]]]" None None "''eps''" plain True,
      THEN conjunct2, THEN conjunct2]
  from two ok2
  have "filter is_scatter (trace (two_dim [[sol [1, 2]], [sol [3, 4]]] None None ''eps'') plain) =
     [ScatterPlot (DataFrame [[1, 2]]) 0 1, ScatterPlot (DataFrame [[3, 4]]) 0 1]"
    by (simp add: sol_def)
  moreover from three ok3
  have "filter is_scatter3d
       (trace (three_dim [[sol [1, 2, 3], sol [4, 5, 6]]] None None ''eps'') plain) =
     [Scatter3D [1, 4] [2, 5] [3, 6]]"
    by (simp add: sol_def axis_values_def when_truthy_def plain_def Plot_init_def)
  moreover from par frame
  have "filter is_parallel
       (trace (pcoords [[sol [1, 2, 3, 4], sol [2, 3, 4, 5], sol [3, 6, 5, 8]]] True None ''eps'')
          plain) =
     [ParallelCoordinates
        \<lparr>columns = 4,
           rows = [[Num 0, Num 0, Num 0, Num 0],
                   [Num (1 / 2), Num (1 / 4), Num (1 / 2), Num (1 / 4)],
                   [Num 1, Num 1, Num 1, Num 1]]\<rparr> 0]"
    by (simp add: sol_def)
  ultimately show ?thesis
    using ok2 ok3 by blast
qed

text \<open>
  C3 as stated fails: with \<open>normalise\<close> true the dataframe handed to the
  parallel-coordinates plot is not the one \<open>get_points\<close> built from the objective values;
  the method has rescaled every column to the range from 0 to 1 before the call.
\<close>

theorem normalise_counterexample:
  "get_points (Some [sol [1, 2, 3, 4], sol [2, 3, 4, 5], sol [3, 6, 5, 8]]) =
     Inr (\<lparr>columns = 4,
            rows = [[Num 1, Num 2, Num 3, Num 4],
                    [Num 2, Num 3, Num 4, Num 5],
                    [Num 3, Num 6, Num 5, Num 8]]\<rparr>, 4)
   \<and> trace (plot (Flat [sol [1, 2, 3, 4], sol [2, 3, 4, 5], sol [3, 6, 5, 8]])
        None True None ''eps'') plain =
     [Figure, Suptitle ''jMetalPy'' 16, AddSubplot 1 1 1 False,
      ParallelCoordinates
        \<lparr>columns = 4,
           rows = [[Num 0, Num 0, Num 0, Num 0],
                   [Num (1 / 2), Num (1 / 4), Num (1 / 2), Num (1 / 4)],
                   [Num 1, Num 1, Num 1, Num 1]]\<rparr> 0,
      LegendRemove, Show, Close]"
  by (simp add: run_defs frame_defs plain_def)

subsection \<open>get_points\<close>

lemma fold_max_Max: "fold max xs (a :: nat) = Max (set (a # xs))"
  by (simp only: Max.set_eq_fold)

lemma fold_max_upper: "x \<in> set xs \<Longrightarrow> x \<le> fold max xs (a :: nat)"
  by (simp add: fold_max_Max)

lemma fold_max_attained: "xs \<noteq> [] \<Longrightarrow> fold max xs (0 :: nat) \<in> set xs"
proof -
  assume "xs \<noteq> []"
  have "Max (set (0 # xs)) \<in> set (0 # xs)"
    by (rule Max_in) simp_all
  moreover have "0 \<in> set xs" if "Max (set (0 # xs)) = 0"
  proof -
    obtain x where x: "x \<in> set xs" using \<open>xs \<noteq> []\<close> by (cases xs) auto
    then have "x \<le> Max (set (0 # xs))" by simp
    with that x show ?thesis by simp
  qed
  ultimately show ?thesis
    by (auto simp: fold_max_Max)
qed

lemma columns_DataFrame: "columns (DataFrame data) = fold max (map length data) 0"
  by (simp add: DataFrame_def Let_def)

lemma rows_DataFrame:
  "rows (DataFrame data) =
     map (\<lambda>r. map Num r @ replicate (columns (DataFrame data) - length r) NaN) data"
  by (simp add: DataFrame_def Let_def)

lemma columns_upper: "r \<in> set data \<Longrightarrow> length r \<le> columns (DataFrame data)"
  by (simp add: columns_DataFrame fold_max_upper)

lemma columns_attained:
  "data \<noteq> [] \<Longrightarrow> \<exists>r \<in> set data. length r = columns (DataFrame data)"
  using fold_max_attained [of "map length data"] by (auto simp: columns_DataFrame)

text \<open>
  C8 as the code has it. \<open>get_points\<close> raises exactly when its argument is \<open>None\<close>. For a
  list of solutions it returns a dataframe with one row for each solution, in order (the
  objective values, filled up with \<open>NaN\<close> to the column count), together with the column
  count of the dataframe. The column count is the greatest length of an objective vector
  in the list (0 for the empty list), so it is the length of each objective vector when
  they all have the same length.
\<close>

theorem get_points_result:
  "((\<exists>e. get_points solutions = Inl e) \<longleftrightarrow> solutions = None)
   \<and> (\<exists>points.
        get_points (Some sols) = Inr (points, columns points)
        \<and> length (rows points) = length sols
        \<and> rows points =
            map (\<lambda>s. map Num (objectives s)
                      @ replicate (columns points - length (objectives s)) NaN) sols
        \<and> list_all (\<lambda>s. length (objectives s) \<le> columns points) sols
        \<and> (sols = [] \<longrightarrow> columns points = 0)
        \<and> (sols \<noteq> [] \<longrightarrow> list_ex (\<lambda>s. length (objectives s) = columns points) sols)
        \<and> (sols \<noteq> [] \<and> list_all (\<lambda>s. length (objectives s) = m) sols \<longrightarrow>
              columns points = m))"
proof (intro conjI)
  show "(\<exists>e. get_points solutions = Inl e) \<longleftrightarrow> solutions = None"
    by (cases solutions) (simp_all add: get_points_def Let_def)
next
  let ?p = "DataFrame (map objectives sols)"
  have upper: "list_all (\<lambda>s. length (objectives s) \<le> columns ?p) sols"
    using columns_upper [of _ "map objectives sols"] by (auto simp: list_all_iff)
  have attained: "list_ex (\<lambda>s. length (objectives s) = columns ?p) sols" if "sols \<noteq> []"
    using that columns_attained [of "map objectives sols"] by (auto simp: list_ex_iff)
  have same: "columns ?p = m"
    if "sols \<noteq> []" and "list_all (\<lambda>s. length (objectives s) = m) sols"
    using attained [OF that(1)] that(2) by (auto simp: list_ex_iff list_all_iff)
  have "get_points (Some sols) = Inr (?p, columns ?p)
        \<and> length (rows ?p) = length sols
        \<and> rows ?p =
            map (\<lambda>s. map Num (objectives s)
                      @ replicate (columns ?p - length (objectives s)) NaN) sols
        \<and> list_all (\<lambda>s. length (objectives s) \<le> columns ?p) sols
        \<and> (sols = [] \<longrightarrow> columns ?p = 0)
        \<and> (sols \<noteq> [] \<longrightarrow> list_ex (\<lambda>s. length (objectives s) = columns ?p) sols)
        \<and> (sols \<noteq> [] \<and> list_all (\<lambda>s. length (objectives s) = m) sols \<longrightarrow> columns ?p = m)"
    using upper attained same
    by (simp add: get_points_Some rows_DataFrame comp_def) (simp add: columns_DataFrame)
  then show "\<exists>points.
        get_points (Some sols) = Inr (points, columns points)
        \<and> length (rows points) = length sols
        \<and> rows points =
            map (\<lambda>s. map Num (objectives s)
                      @ replicate (columns points - length (objectives s)) NaN) sols
        \<and> list_all (\<lambda>s. length (objectives s) \<le> columns points) sols
        \<and> (sols = [] \<longrightarrow> columns points = 0)
        \<and> (sols \<noteq> [] \<longrightarrow> list_ex (\<lambda>s. length (objectives s) = columns points) sols)
        \<and> (sols \<noteq> [] \<and> list_all (\<lambda>s. length (objectives s) = m) sols \<longrightarrow>
              columns points = m)"
    by (rule exI)
qed

theorem get_points_result_witness:
  "(\<exists>e. get_points None = Inl e)
   \<and> list_all (\<lambda>s. length (objectives s) = 2) [sol [1, 2], sol [3, 4]]
   \<and> get_points (Some [sol [1, 2], sol [3, 4]]) =
       Inr (\<lparr>columns = 2, rows = [[Num 1, Num 2], [Num 3, Num 4]]\<rparr>, 2)"
proof -
  note r = get_points_result [of None "[sol [1, 2], sol [3, 4]]" 2]
  from r have "\<exists>e. get_points None = Inl e" by simp
  moreover have same: "list_all (\<lambda>s. length (objectives s) = 2) [sol [1, 2], sol [3, 4]]"
    by (simp add: sol_def)
  moreover from r [THEN conjunct2] same
  have "get_points (Some [sol [1, 2], sol [3, 4]]) =
       Inr (\<lparr>columns = 2, rows = [[Num 1, Num 2], [Num 3, Num 4]]\<rparr>, 2)"
    by (auto simp: sol_def)
  ultimately show ?thesis by blast
qed

text \<open>
  C8 as stated fails: for solutions whose objective vectors differ in length the integer
  returned is the column count, which is not the length of the shorter vector.
\<close>

theorem ragged_front_counterexample:
  "get_points (Some [sol [1, 2], sol [3]]) =
     Inr (\<lparr>columns = 2, rows = [[Num 1, Num 2], [Num 3, NaN]]\<rparr>, 2)
   \<and> length (objectives (sol [3])) = 1"
  by (simp add: get_points_def DataFrame_def sol_def)

end
